theory Spec2Isabelle
  imports Complex_Main
begin

section \<open>JSON values as the handlers see them\<close>

text \<open>
  The routes of \<^verbatim>\<open>Routes/PaymentRoute.js\<close> read \<^verbatim>\<open>req.body\<close> after
  \<^verbatim>\<open>express.json()\<close> has parsed it, and the bodies of the gateway's answers after
  axios has parsed them. A parsed body is a JSON value; numbers are integers here (kobo
  amounts), an object is the list of its members in insertion order.
\<close>

datatype json =
    JNull
  | JBool bool
  | JNum int
  | JStr string
  | JArr "json list"
  | JObj "(string \<times> json) list"

text \<open>A JavaScript value read from a body: \<open>None\<close> is \<^verbatim>\<open>undefined\<close>.\<close>

type_synonym jsval = "json option"

text \<open>
  \<^verbatim>\<open>v.k\<close> for a \<open>v\<close> that is neither \<^verbatim>\<open>null\<close> nor \<^verbatim>\<open>undefined\<close>
  (on those the access throws a TypeError, see \<open>nullish\<close>): the member of an object,
  \<^verbatim>\<open>undefined\<close> on a missing key or on a primitive.
\<close>

fun js_get :: "jsval \<Rightarrow> string \<Rightarrow> jsval" where
  "js_get (Some (JObj kvs)) k = map_of kvs k"
| "js_get _ k = None"

definition nullish :: "jsval \<Rightarrow> bool" where
  "nullish v = (v = None \<or> v = Some JNull)"

text \<open>JavaScript truthiness, as \<^verbatim>\<open>!x\<close>, \<^verbatim>\<open>x && y\<close> and \<^verbatim>\<open>x || y\<close> test it.\<close>

fun truthy :: "jsval \<Rightarrow> bool" where
  "truthy None = False"
| "truthy (Some JNull) = False"
| "truthy (Some (JBool b)) = b"
| "truthy (Some (JNum i)) = (i \<noteq> 0)"
| "truthy (Some (JStr s)) = (s \<noteq> [])"
| "truthy (Some (JArr xs)) = True"
| "truthy (Some (JObj kvs)) = True"

text \<open>
  Where a value is handed to a Mongoose model it is read at the type of the schema path:
  a JSON string for a String, Date or ObjectId path, a JSON number for a Number path
  (\<open>as_number\<close>, with the numbers below). A value of another JSON type reads as
  absent: Mongoose's casting between types is not part of this model.
\<close>

fun as_string :: "jsval \<Rightarrow> string option" where
  "as_string (Some (JStr s)) = Some s"
| "as_string _ = None"

text \<open>A value inside a template literal: \<^verbatim>\<open>`${x}`\<close>.\<close>

fun template :: "string option \<Rightarrow> string" where
  "template None = ''undefined''"
| "template (Some s) = s"

subsection \<open>\<^verbatim>\<open>JSON.stringify\<close>\<close>

definition digit_char :: "nat \<Rightarrow> char" where
  "digit_char n = ''0123456789'' ! n"

fun dec_nat :: "nat \<Rightarrow> string" where
  "dec_nat n = (if n < 10 then [digit_char n] else dec_nat (n div 10) @ [digit_char (n mod 10)])"

definition dec_int :: "int \<Rightarrow> string" where
  "dec_int i = (if i < 0 then CHR ''-'' # dec_nat (nat (- i)) else dec_nat (nat i))"

text \<open>
  The characters a JSON string escapes: the double quote, the backslash, and of the
  control characters the line feed, the carriage return and the tab.
\<close>

fun quote_char :: "char \<Rightarrow> string" where
  "quote_char c =
     (if c = CHR 0x22 then [CHR 0x5C, CHR 0x22]
      else if c = CHR 0x5C then [CHR 0x5C, CHR 0x5C]
      else if c = CHR 0x0A then [CHR 0x5C, CHR ''n'']
      else if c = CHR 0x0D then [CHR 0x5C, CHR ''r'']
      else if c = CHR 0x09 then [CHR 0x5C, CHR ''t'']
      else [c])"

definition quote :: "string \<Rightarrow> string" where
  "quote s = CHR 0x22 # concat (map quote_char s) @ [CHR 0x22]"

text \<open>
  The compact form: no white space, members in the order of the object (JavaScript
  moves keys that are array indices to the front; such keys are outside the model).
\<close>

fun JSON_stringify :: "json \<Rightarrow> string"
  and stringify_elements :: "json list \<Rightarrow> string"
  and stringify_members :: "(string \<times> json) list \<Rightarrow> string"
where
  "JSON_stringify JNull = ''null''"
| "JSON_stringify (JBool b) = (if b then ''true'' else ''false'')"
| "JSON_stringify (JNum i) = dec_int i"
| "JSON_stringify (JStr s) = quote s"
| "JSON_stringify (JArr xs) = ''['' @ stringify_elements xs @ '']''"
| "JSON_stringify (JObj kvs) = ''{'' @ stringify_members kvs @ ''}''"
| "stringify_elements [] = []"
| "stringify_elements [x] = JSON_stringify x"
| "stringify_elements (x # y # ys) = JSON_stringify x @ '','' @ stringify_elements (y # ys)"
| "stringify_members [] = []"
| "stringify_members [(k, v)] = quote k @ '':'' @ JSON_stringify v"
| "stringify_members ((k, v) # m # ms) =
     quote k @ '':'' @ JSON_stringify v @ '','' @ stringify_members (m # ms)"

subsection \<open>\<^verbatim>\<open>JSON.parse\<close>, as \<^verbatim>\<open>express.json()\<close> runs it on the received bytes\<close>

text \<open>
  The parser covers objects, arrays, strings with the escapes above, integers and the
  three literals, with white space between tokens; anything else is rejected. A key
  that occurs twice keeps its first place and its last value, as in JavaScript. The
  first argument of \<open>parse_value\<close> bounds the number of nested calls; \<open>JSON_parse\<close>
  starts it above the length of the text.
\<close>

definition is_ws :: "char \<Rightarrow> bool" where
  "is_ws c = (c = CHR 0x20 \<or> c = CHR 0x09 \<or> c = CHR 0x0A \<or> c = CHR 0x0D)"

fun skip_ws :: "string \<Rightarrow> string" where
  "skip_ws [] = []"
| "skip_ws (c # cs) = (if is_ws c then skip_ws cs else c # cs)"

fun unescape :: "char \<Rightarrow> char option" where
  "unescape c =
     (if c = CHR 0x22 \<or> c = CHR 0x5C \<or> c = CHR ''/'' then Some c
      else if c = CHR ''n'' then Some (CHR 0x0A)
      else if c = CHR ''r'' then Some (CHR 0x0D)
      else if c = CHR ''t'' then Some (CHR 0x09)
      else None)"

fun parse_chars :: "string \<Rightarrow> string \<Rightarrow> (string \<times> string) option" where
  "parse_chars acc [] = None"
| "parse_chars acc [c] = (if c = CHR 0x22 then Some (rev acc, []) else None)"
| "parse_chars acc (c # d # cs) =
     (if c = CHR 0x22 then Some (rev acc, d # cs)
      else if c = CHR 0x5C then
        (case unescape d of None \<Rightarrow> None | Some e \<Rightarrow> parse_chars (e # acc) cs)
      else parse_chars (c # acc) (d # cs))"

definition is_digit :: "char \<Rightarrow> bool" where
  "is_digit c = (c \<in> set ''0123456789'')"

definition digit_val :: "char \<Rightarrow> nat" where
  "digit_val c = of_char c - 48"

definition parse_nat :: "string \<Rightarrow> (nat \<times> string) option" where
  "parse_nat s =
     (let ds = takeWhile is_digit s; r = dropWhile is_digit s
      in if ds = [] \<or> (hd ds = CHR ''0'' \<and> length ds > 1) then None
         else if r \<noteq> [] \<and> hd r \<in> set ''.eE'' then None
         else Some (foldl (\<lambda>n c. 10 * n + digit_val c) 0 ds, r))"

fun set_member :: "string \<Rightarrow> json \<Rightarrow> (string \<times> json) list \<Rightarrow> (string \<times> json) list" where
  "set_member k v [] = [(k, v)]"
| "set_member k v ((k', v') # kvs) =
     (if k' = k then (k, v) # kvs else (k', v') # set_member k v kvs)"

definition literal :: "string \<Rightarrow> string \<Rightarrow> string option" where
  "literal w s = (if take (length w) s = w then Some (drop (length w) s) else None)"

fun parse_value :: "nat \<Rightarrow> string \<Rightarrow> (json \<times> string) option"
  and parse_elements :: "nat \<Rightarrow> json list \<Rightarrow> string \<Rightarrow> (json \<times> string) option"
  and parse_members :: "nat \<Rightarrow> (string \<times> json) list \<Rightarrow> string \<Rightarrow> (json \<times> string) option"
where
  "parse_value 0 s = None"
| "parse_value (Suc n) s =
     (case skip_ws s of
        [] \<Rightarrow> None
      | c # cs \<Rightarrow>
          if c = CHR ''{'' then
            (case skip_ws cs of
               [] \<Rightarrow> None
             | d # ds \<Rightarrow> if d = CHR ''}'' then Some (JObj [], ds) else parse_members n [] (d # ds))
          else if c = CHR ''['' then
            (case skip_ws cs of
               [] \<Rightarrow> None
             | d # ds \<Rightarrow> if d = CHR '']'' then Some (JArr [], ds) else parse_elements n [] (d # ds))
          else if c = CHR 0x22 then
            (case parse_chars [] cs of None \<Rightarrow> None | Some (str, r) \<Rightarrow> Some (JStr str, r))
          else if c = CHR ''-'' then
            (case parse_nat cs of None \<Rightarrow> None | Some (m, r) \<Rightarrow> Some (JNum (- int m), r))
          else if is_digit c then
            (case parse_nat (c # cs) of None \<Rightarrow> None | Some (m, r) \<Rightarrow> Some (JNum (int m), r))
          else if c = CHR ''t'' then
            (case literal ''true'' (c # cs) of None \<Rightarrow> None | Some r \<Rightarrow> Some (JBool True, r))
          else if c = CHR ''f'' then
            (case literal ''false'' (c # cs) of None \<Rightarrow> None | Some r \<Rightarrow> Some (JBool False, r))
          else if c = CHR ''n'' then
            (case literal ''null'' (c # cs) of None \<Rightarrow> None | Some r \<Rightarrow> Some (JNull, r))
          else None)"
| "parse_elements 0 acc s = None"
| "parse_elements (Suc n) acc s =
     (case parse_value n s of
        None \<Rightarrow> None
      | Some (v, r) \<Rightarrow>
          (case skip_ws r of
             [] \<Rightarrow> None
           | c # cs \<Rightarrow>
               if c = CHR '','' then parse_elements n (acc @ [v]) cs
               else if c = CHR '']'' then Some (JArr (acc @ [v]), cs)
               else None))"
| "parse_members 0 acc s = None"
| "parse_members (Suc n) acc s =
     (case skip_ws s of
        [] \<Rightarrow> None
      | q # qs \<Rightarrow>
          if q \<noteq> CHR 0x22 then None
          else
            (case parse_chars [] qs of
               None \<Rightarrow> None
             | Some (k, r) \<Rightarrow>
                 (case skip_ws r of
                    [] \<Rightarrow> None
                  | c # cs \<Rightarrow>
                      if c \<noteq> CHR '':'' then None
                      else
                        (case parse_value n cs of
                           None \<Rightarrow> None
                         | Some (v, r') \<Rightarrow>
                             (case skip_ws r' of
                                [] \<Rightarrow> None
                              | e # es \<Rightarrow>
                                  if e = CHR '','' then parse_members n (set_member k v acc) es
                                  else if e = CHR ''}'' then Some (JObj (set_member k v acc), es)
                                  else None)))))"



section \<open>JavaScript numbers\<close>

text \<open>
  A Number is a double: a finite value (a rational here; the two zeros are one value,
  no test of the routes tells them apart), NaN, or one of the two infinities.
\<close>

datatype number = Finite rat | NaN | Infinity | Minus_Infinity

text \<open>
  \<open>double q\<close> is the Number for the mathematical value \<open>q\<close>: the double nearest to
  it, the even one of two that are equally near, and an infinity from \<open>2 ^ 1024\<close> on.
  A finite double is an integer below \<open>2 ^ 53\<close> times \<open>2 powi e\<close>, where \<open>e\<close> is
  52 below the binary exponent of the value and never below \<open>- 1074\<close>. \<open>bits n\<close> is the
  number of binary digits of \<open>n\<close>, and \<open>binade q\<close> the binary exponent of a positive
  \<open>q\<close>: the largest \<open>k\<close> with \<open>2 powi k \<le> q\<close>.
\<close>

fun bits :: "nat \<Rightarrow> nat" where
  "bits n = (if n = 0 then 0 else Suc (bits (n div 2)))"

declare bits.simps [simp del]

definition binade :: "rat \<Rightarrow> int" where
  "binade q =
     (if 1 \<le> q then int (bits (nat \<lfloor>q\<rfloor>)) - 1 else - int (bits (nat (\<lceil>1 / q\<rceil> - 1))))"

definition nearest_even :: "rat \<Rightarrow> int" where
  "nearest_even x =
     (let f = \<lfloor>x\<rfloor>; r = x - of_int f
      in if r < 1 / 2 then f else if 1 / 2 < r then f + 1 else if even f then f else f + 1)"

definition double :: "rat \<Rightarrow> number" where
  "double q =
     (if q = 0 then Finite 0
      else
        (let e = max (binade \<bar>q\<bar> - 52) (- 1074);
             v = of_int (nearest_even (\<bar>q\<bar> / 2 powi e)) * 2 powi e
         in if 2 ^ 1024 \<le> v then (if 0 < q then Infinity else Minus_Infinity)
            else Finite (if 0 < q then v else - v)))"

text \<open>
  The number a string stands for (\<^verbatim>\<open>StringToNumber\<close> in the definition of the
  language). White space at both ends is dropped, and the empty string is 0. What is left
  must be \<^verbatim>\<open>Infinity\<close> with an optional sign, or a binary, octal or hexadecimal
  literal (\<^verbatim>\<open>0b\<close>, \<^verbatim>\<open>0o\<close>, \<^verbatim>\<open>0x\<close>, without a sign), or a decimal literal
  with an optional sign, fraction and exponent; any other string is NaN. The characters
  of a string are code units below 256: the white space among them is the tab, the line
  feed, the vertical tab, the form feed, the carriage return, the space and the no-break
  space.
\<close>

definition white_space :: "char \<Rightarrow> bool" where
  "white_space c = (c \<in> {CHR 0x09, CHR 0x0A, CHR 0x0B, CHR 0x0C, CHR 0x0D, CHR 0x20, CHR 0xA0})"

definition trim :: "string \<Rightarrow> string" where
  "trim s = rev (dropWhile white_space (rev (dropWhile white_space s)))"

definition digit_of :: "char \<Rightarrow> nat option" where
  "digit_of c =
     (let n = of_char c :: nat
      in if 48 \<le> n \<and> n \<le> 57 then Some (n - 48)
         else if 97 \<le> n \<and> n \<le> 102 then Some (n - 87)
         else if 65 \<le> n \<and> n \<le> 70 then Some (n - 55)
         else None)"

fun digits :: "nat \<Rightarrow> nat \<Rightarrow> string \<Rightarrow> nat option" where
  "digits radix n [] = Some n"
| "digits radix n (c # cs) =
     (case digit_of c of
        None \<Rightarrow> None
      | Some v \<Rightarrow> if v < radix then digits radix (radix * n + v) cs else None)"

definition digits_value :: "nat \<Rightarrow> string \<Rightarrow> nat option" where
  "digits_value radix ds = (if ds = [] then None else digits radix 0 ds)"

definition radix_literal :: "string \<Rightarrow> nat option" where
  "radix_literal t =
     (case t of
        z # x # ds \<Rightarrow>
          if z \<noteq> CHR ''0'' then None
          else if x = CHR ''x'' \<or> x = CHR ''X'' then digits_value 16 ds
          else if x = CHR ''o'' \<or> x = CHR ''O'' then digits_value 8 ds
          else if x = CHR ''b'' \<or> x = CHR ''B'' then digits_value 2 ds
          else None
      | _ \<Rightarrow> None)"

definition signed_integer :: "string \<Rightarrow> int option" where
  "signed_integer t =
     (case t of
        [] \<Rightarrow> None
      | c # cs \<Rightarrow>
          if c = CHR ''-'' then map_option (\<lambda>n. - int n) (digits_value 10 cs)
          else if c = CHR ''+'' then map_option int (digits_value 10 cs)
          else map_option int (digits_value 10 t))"

definition exponent_part :: "string \<Rightarrow> int option" where
  "exponent_part t =
     (case t of
        [] \<Rightarrow> Some 0
      | c # cs \<Rightarrow> if c = CHR ''e'' \<or> c = CHR ''E'' then signed_integer cs else None)"

definition unsigned_decimal :: "string \<Rightarrow> rat option" where
  "unsigned_decimal t =
     (let whole = takeWhile is_digit t;
          rest = dropWhile is_digit t;
          point = (take 1 rest = ''.'');
          fraction = (if point then takeWhile is_digit (drop 1 rest) else []);
          tail = (if point then dropWhile is_digit (drop 1 rest) else rest)
      in if whole = [] \<and> fraction = [] then None
         else
           (case (digits 10 0 (whole @ fraction), exponent_part tail) of
              (Some n, Some x) \<Rightarrow> Some (of_nat n / 10 ^ length fraction * 10 powi x)
            | _ \<Rightarrow> None))"

definition StringToNumber :: "string \<Rightarrow> number" where
  "StringToNumber s =
     (let t = trim s
      in if t = [] then Finite 0
         else if t = ''Infinity'' \<or> t = ''+Infinity'' then Infinity
         else if t = ''-Infinity'' then Minus_Infinity
         else
           (case radix_literal t of
              Some n \<Rightarrow> double (of_nat n)
            | None \<Rightarrow>
                (case unsigned_decimal (if take 1 t = ''+'' \<or> take 1 t = ''-'' then drop 1 t else t) of
                   None \<Rightarrow> NaN
                 | Some q \<Rightarrow> double (if take 1 t = ''-'' then - q else q))))"

text \<open>
  An operator that needs a number (\<^verbatim>\<open><=\<close>, \<^verbatim>\<open>*\<close>) first turns an array or an
  object into a primitive. An array becomes its elements joined by commas, with
  \<^verbatim>\<open>null\<close> as the empty string and a nested array joined in the same way. An object
  parsed from JSON becomes \<^verbatim>\<open>[object Object]\<close>, unless it has a member named
  \<^verbatim>\<open>toString\<close>: the member hides the inherited method and is no function, and the
  conversion throws a TypeError (\<open>ToPrimitive_throws\<close>).

  \<open>ToNumber\<close> is the number of a value whose conversion does not throw. A JSON number
  is the double nearest to it. An array of two or more elements is NaN, as no number is
  written with a comma; an array of one element is the number of the string of that
  element, and a number prints to a string that reads back as the same number.
\<close>

fun ToPrimitive_throws :: "json \<Rightarrow> bool" where
  "ToPrimitive_throws (JObj kvs) = (''toString'' \<in> fst ` set kvs)"
| "ToPrimitive_throws (JArr xs) = (\<exists>x \<in> set xs. ToPrimitive_throws x)"
| "ToPrimitive_throws _ = False"

fun ToNumber :: "json \<Rightarrow> number" where
  "ToNumber JNull = Finite 0"
| "ToNumber (JBool b) = Finite (if b then 1 else 0)"
| "ToNumber (JNum i) = double (of_int i)"
| "ToNumber (JStr s) = StringToNumber s"
| "ToNumber (JObj kvs) = NaN"
| "ToNumber (JArr []) = Finite 0"
| "ToNumber (JArr [x]) =
     (case x of JNull \<Rightarrow> Finite 0 | JBool b \<Rightarrow> NaN | JObj kvs \<Rightarrow> NaN | _ \<Rightarrow> ToNumber x)"
| "ToNumber (JArr (x # y # ys)) = NaN"

text \<open>
  \<^verbatim>\<open>x * 100\<close> is the exact product rounded to a double; \<^verbatim>\<open>Math.round(x)\<close> is the
  integer nearest to \<open>x\<close>, the upper one of two that are equally near.
\<close>

definition times_100 :: "number \<Rightarrow> number" where
  "times_100 x = (case x of Finite q \<Rightarrow> double (q * 100) | _ \<Rightarrow> x)"

definition Math_round :: "number \<Rightarrow> number" where
  "Math_round x = (case x of Finite q \<Rightarrow> Finite (of_int \<lfloor>q + 1 / 2\<rfloor>) | _ \<Rightarrow> x)"

text \<open>
  A value handed to a Number path of a Mongoose model. A JSON number is read as the
  double it is (as with \<open>as_string\<close>, a value of another JSON type reads as absent); a
  Number that the route has computed is kept unless it is NaN, on which the cast fails.
\<close>

fun as_number :: "jsval \<Rightarrow> number option" where
  "as_number (Some (JNum i)) = Some (double (of_int i))"
| "as_number _ = None"

definition Number_path :: "number \<Rightarrow> number option" where
  "Number_path x = (if x = NaN then None else Some x)"

section \<open>The stored documents\<close>

text \<open>
  The payment schema the routes are written for is the one of \<^verbatim>\<open>unnamed/part_006\<close>
  (the Paystack version of \<^verbatim>\<open>models/Payment.js\<close>, with \<^verbatim>\<open>paystackReference\<close>
  and \<^verbatim>\<open>paidAt\<close>); the student has the payment fields of
  \<^verbatim>\<open>Models/Students.js\<close>. A payment's \<^verbatim>\<open>_id\<close> is a number. A student's
  \<^verbatim>\<open>_id\<close> is kept as the string that prints it. In the reconciliation routes the
  id comes from the gateway's metadata and is compared as it is: there every string
  stands for a well-formed ObjectId. In the initiation the id is the client's, and the
  cast that \<^verbatim>\<open>findById\<close> runs on it is part of the model (\<open>ObjectId\<close> below). A
  date sent by the gateway is kept as its text, \<^verbatim>\<open>Date.now()\<close> is a number.
  \<open>None\<close> in a stored field is \<^verbatim>\<open>null\<close> or absent; in \<open>paymentHistory\<close> it
  is the array element \<^verbatim>\<open>null\<close>.
\<close>

record payment =
  p_id :: nat
  studentId :: string
  paystackReference :: string
  amount :: number
  currency :: string
  status :: string
  semester :: string
  academicYear :: string
  description :: "string option"
  paidAt :: "string option"
  createdAt :: nat
  updatedAt :: nat

record student =
  s_id :: string
  currentSemesterPaymentStatus :: string
  lastPaidSemester :: "string option"
  lastPaidAcademicYear :: "string option"
  paymentHistory :: "nat option list"

record db =
  payments :: "payment list"
  students :: "student list"

text \<open>
  The store operations the routes call. Each can throw: \<open>fails op\<close> says which of
  them do while the request is served (a lost connection, a time-out), besides the
  validation and duplicate-key errors that \<^verbatim>\<open>save\<close> raises by itself.
\<close>

datatype db_op = FindStudent | UpdatePayment | SavePayment | UpdateStudent

datatype error =
    DbError db_op
  | CastError
  | ValidationError
  | DuplicateKey
  | TypeError
  | ReferenceError
  | GatewayError

fun update_first :: "('a \<Rightarrow> bool) \<Rightarrow> ('a \<Rightarrow> 'a) \<Rightarrow> 'a list \<Rightarrow> 'a list" where
  "update_first P f [] = []"
| "update_first P f (x # xs) = (if P x then f x # xs else x # update_first P f xs)"

text \<open>
  \<^verbatim>\<open>Payment.findOneAndUpdate({ paystackReference: reference }, update, { new: true })\<close>:
  the filter names the reference only, there is no \<^verbatim>\<open>upsert\<close>; the result is the
  updated document, or \<^verbatim>\<open>null\<close> when none matches.
\<close>

definition has_reference :: "string option \<Rightarrow> payment \<Rightarrow> bool" where
  "has_reference reference p = (Some (paystackReference p) = reference)"

definition Payment_findOneAndUpdate ::
  "(db_op \<Rightarrow> bool) \<Rightarrow> string option \<Rightarrow> (payment \<Rightarrow> payment) \<Rightarrow> db \<Rightarrow> error + (payment option \<times> db)"
where
  "Payment_findOneAndUpdate fails reference update d =
     (if fails UpdatePayment then Inl (DbError UpdatePayment)
      else Inr (map_option update (find (has_reference reference) (payments d)),
                d\<lparr>payments := update_first (has_reference reference) update (payments d)\<rparr>))"

definition has_id :: "string option \<Rightarrow> student \<Rightarrow> bool" where
  "has_id i s = (Some (s_id s) = i)"

text \<open>
  \<^verbatim>\<open>Student.findById(id)\<close> casts \<open>id\<close> to an ObjectId before the store is asked,
  and the query throws a CastError when the cast fails. A string is an ObjectId when it
  is 24 hexadecimal digits (\<^verbatim>\<open>new ObjectId(string)\<close> of bson 6; the versions before
  it also took any string of twelve characters), and it prints in lower case. Only
  strings are modelled. On a value of another type in the place of the id (a number, or
  an array or an object, which Mongoose reads as a list of ids or as query operators)
  the model lets the cast fail, and no statement below speaks of such a request.
\<close>

definition hex_digit :: "char \<Rightarrow> bool" where
  "hex_digit c = (digit_of c \<noteq> None)"

definition lower_case :: "char \<Rightarrow> char" where
  "lower_case c =
     (if c = CHR ''A'' then CHR ''a'' else if c = CHR ''B'' then CHR ''b''
      else if c = CHR ''C'' then CHR ''c'' else if c = CHR ''D'' then CHR ''d''
      else if c = CHR ''E'' then CHR ''e'' else if c = CHR ''F'' then CHR ''f'' else c)"

definition ObjectId :: "string \<Rightarrow> string option" where
  "ObjectId s = (if length s = 24 \<and> list_all hex_digit s then Some (map lower_case s) else None)"

definition castObjectId :: "jsval \<Rightarrow> string option" where
  "castObjectId v = (case v of Some (JStr s) \<Rightarrow> ObjectId s | _ \<Rightarrow> None)"

definition Student_findById :: "(db_op \<Rightarrow> bool) \<Rightarrow> jsval \<Rightarrow> db \<Rightarrow> error + student option" where
  "Student_findById fails i d =
     (case castObjectId i of
        None \<Rightarrow> Inl CastError
      | Some oid \<Rightarrow>
          if fails FindStudent then Inl (DbError FindStudent)
          else Inr (find (has_id (Some oid)) (students d)))"

definition Student_findByIdAndUpdate ::
  "(db_op \<Rightarrow> bool) \<Rightarrow> string option \<Rightarrow> (student \<Rightarrow> student) \<Rightarrow> db \<Rightarrow> error + db"
where
  "Student_findByIdAndUpdate fails i update d =
     (if fails UpdateStudent then Inl (DbError UpdateStudent)
      else Inr (d\<lparr>students := update_first (has_id i) update (students d)\<rparr>))"

text \<open>\<^verbatim>\<open>$addToSet\<close>: the element is appended unless the array holds it already.\<close>

definition addToSet :: "'a \<Rightarrow> 'a list \<Rightarrow> 'a list" where
  "addToSet x xs = (if x \<in> set xs then xs else xs @ [x])"

text \<open>
  The update documents of the routes: the two that mark a payment successful or failed,
  and the one that marks the student's semester paid. A member whose value is
  \<^verbatim>\<open>undefined\<close> is written as \<^verbatim>\<open>null\<close>.
\<close>

definition set_success :: "string option \<Rightarrow> nat \<Rightarrow> payment \<Rightarrow> payment" where
  "set_success paid_at now p = p\<lparr>status := ''success'', paidAt := paid_at, updatedAt := now\<rparr>"

definition set_failed :: "nat \<Rightarrow> payment \<Rightarrow> payment" where
  "set_failed now p = p\<lparr>status := ''failed'', updatedAt := now\<rparr>"

definition set_paid :: "string option \<Rightarrow> string option \<Rightarrow> nat option \<Rightarrow> student \<Rightarrow> student" where
  "set_paid sem year pid s =
     s\<lparr>currentSemesterPaymentStatus := ''paid'',
       lastPaidSemester := sem,
       lastPaidAcademicYear := year,
       paymentHistory := addToSet pid (paymentHistory s)\<rparr>"

text \<open>
  \<^verbatim>\<open>new Payment({...})\<close> followed by \<^verbatim>\<open>save()\<close>. The object literal may leave a
  path undefined; \<^verbatim>\<open>save\<close> validates the paths the schema requires (a required String
  must be non-empty; \<open>document\<close> is \<open>None\<close> when the validation fails), fills the
  schema defaults, and inserts under the unique index on \<^verbatim>\<open>paystackReference\<close>. The
  new \<^verbatim>\<open>_id\<close> is one no stored payment has.
\<close>

record payment_fields =
  f_studentId :: "string option"
  f_paystackReference :: "string option"
  f_amount :: "number option"
  f_currency :: "string option"
  f_status :: string
  f_semester :: "string option"
  f_academicYear :: "string option"
  f_description :: "string option"
  f_paidAt :: "string option"
  f_createdAt :: "nat option"
  f_updatedAt :: "nat option"

definition new_id :: "db \<Rightarrow> nat" where
  "new_id d = Suc (fold max (map p_id (payments d)) 0)"

definition document :: "nat \<Rightarrow> nat \<Rightarrow> payment_fields \<Rightarrow> payment option" where
  "document i now f =
     (case (f_studentId f, f_paystackReference f, f_amount f, f_semester f, f_academicYear f) of
        (Some sid, Some r, Some a, Some sem, Some year) \<Rightarrow>
          if sid = [] \<or> r = [] \<or> sem = [] \<or> year = [] \<or> f_currency f = Some [] \<or> f_status f = []
          then None
          else Some
            \<lparr>p_id = i,
             studentId = sid,
             paystackReference = r,
             amount = a,
             currency = (case f_currency f of None \<Rightarrow> ''NGN'' | Some c \<Rightarrow> c),
             status = f_status f,
             semester = sem,
             academicYear = year,
             description = f_description f,
             paidAt = f_paidAt f,
             createdAt = (case f_createdAt f of None \<Rightarrow> now | Some t \<Rightarrow> t),
             updatedAt = (case f_updatedAt f of None \<Rightarrow> now | Some t \<Rightarrow> t)\<rparr>
      | _ \<Rightarrow> None)"

definition Payment_save ::
  "(db_op \<Rightarrow> bool) \<Rightarrow> nat \<Rightarrow> payment_fields \<Rightarrow> db \<Rightarrow> error + (payment \<times> db)"
where
  "Payment_save fails now f d =
     (case document (new_id d) now f of
        None \<Rightarrow> Inl ValidationError
      | Some p \<Rightarrow>
          if fails SavePayment then Inl (DbError SavePayment)
          else if find (has_reference (f_paystackReference f)) (payments d) \<noteq> None then Inl DuplicateKey
          else Inr (p, d\<lparr>payments := payments d @ [p]\<rparr>))"

section \<open>Requests and responses\<close>

text \<open>
  What the routes read of a request: the two headers, the \<^verbatim>\<open>:reference\<close> path
  parameter and the parsed body. What they answer: the status code and the body, or
  nothing at all when an exception leaves the \<^verbatim>\<open>async\<close> handler (\<open>Unhandled\<close>).
\<close>

record request =
  authorization :: "string option"
  x_paystack_signature :: "string option"
  params_reference :: string
  body :: json

datatype reply =
    Message string
  | Message_details string jsval
  | Message_error string error
  | Received
  | Received_message string
  | Text string
  | Verified "payment option"
  | Initiated jsval jsval jsval nat

datatype response = Responded nat reply | Unhandled error

text \<open>
  The answer of the gateway to an axios call: the call throws (no answer; or an answer
  with a status outside 2xx, where the \<^verbatim>\<open>catch\<close> reads a member of its body:
  that body is taken to be neither \<^verbatim>\<open>null\<close> nor absent), or returns the parsed
  body \<^verbatim>\<open>paystackResponse.data\<close>.
\<close>

datatype gateway = Gateway_threw | Gateway_returned jsval

text \<open>The \<^verbatim>\<open>protect\<close> middleware: a header that starts with \<^verbatim>\<open>Bearer\<close>.\<close>

definition protect :: "request \<Rightarrow> bool" where
  "protect req = (case authorization req of None \<Rightarrow> False | Some a \<Rightarrow> take 6 a = ''Bearer'')"

section \<open>\<^verbatim>\<open>Routes/PaymentRoute.js\<close>\<close>

subsection \<open>\<^verbatim>\<open>POST /initiate-payment\<close>\<close>

text \<open>
  \<^verbatim>\<open>amount <= 0\<close> converts \<open>amount\<close> to a number. The conversion throws on the
  values of \<open>ToPrimitive_throws\<close>; on the others the test holds when the number is
  zero or below, and fails on NaN. \<^verbatim>\<open>Math.round(amount * 100)\<close> converts in the
  same way.
\<close>

definition amount_throws :: "jsval \<Rightarrow> bool" where
  "amount_throws amt = (case amt of None \<Rightarrow> False | Some j \<Rightarrow> ToPrimitive_throws j)"

definition amount_number :: "jsval \<Rightarrow> number" where
  "amount_number amt = (case amt of None \<Rightarrow> NaN | Some j \<Rightarrow> ToNumber j)"

definition not_positive :: "jsval \<Rightarrow> bool" where
  "not_positive amt =
     (case amount_number amt of Finite q \<Rightarrow> q \<le> 0 | Minus_Infinity \<Rightarrow> True | _ \<Rightarrow> False)"

text \<open>\<^verbatim>\<open>description || `Fee payment for ${semester} ${academicYear}`\<close>\<close>

definition description_or :: "jsval \<Rightarrow> jsval \<Rightarrow> jsval \<Rightarrow> string option" where
  "description_or desc sem year =
     (if truthy desc then as_string desc
      else Some (''Fee payment for '' @ template (as_string sem) @ '' '' @ template (as_string year)))"

text \<open>
  The body of the \<^verbatim>\<open>try\<close>: a result on the left is an exception on its way to the
  \<^verbatim>\<open>catch\<close>. The student is looked up under the id of the body as it is; the new
  payment holds the amount in kobo, and its validation fails when that is NaN.
\<close>

definition initiate_try ::
  "(db_op \<Rightarrow> bool) \<Rightarrow> nat \<Rightarrow> gateway \<Rightarrow> jsval \<Rightarrow> jsval \<Rightarrow> jsval \<Rightarrow> jsval \<Rightarrow> jsval \<Rightarrow> db
    \<Rightarrow> (error + response) \<times> db"
where
  "initiate_try fails now gw amt sid sem year desc d =
     (case Student_findById fails sid d of
        Inl e \<Rightarrow> (Inl e, d)
      | Inr None \<Rightarrow> (Inr (Responded 404 (Message ''Student not found.'')), d)
      | Inr (Some student) \<Rightarrow>
          (let amountInKobo = Math_round (times_100 (amount_number amt)) in
           case gw of
             Gateway_threw \<Rightarrow> (Inl GatewayError, d)
           | Gateway_returned data \<Rightarrow>
               if truthy data \<and> truthy (js_get data ''status'') then
                 (let paystackData = js_get data ''data'' in
                  if nullish paystackData then (Inl TypeError, d)
                  else
                    (case Payment_save fails now
                            \<lparr>f_studentId = Some (s_id student),
                             f_paystackReference = as_string (js_get paystackData ''reference''),
                             f_amount = Number_path amountInKobo,
                             f_currency = Some ''NGN'',
                             f_status = ''pending'',
                             f_semester = as_string sem,
                             f_academicYear = as_string year,
                             f_description = description_or desc sem year,
                             f_paidAt = None,
                             f_createdAt = None,
                             f_updatedAt = None\<rparr> d of
                       Inl e \<Rightarrow> (Inl e, d)
                     | Inr (newPayment, d') \<Rightarrow>
                         (Inr (Responded 200
                                 (Initiated (js_get paystackData ''authorization_url'')
                                            (js_get paystackData ''access_code'')
                                            (js_get paystackData ''reference'')
                                            (p_id newPayment))), d')))
               else if nullish data then (Inl TypeError, d)
               else (Inr (Responded 500
                            (Message_details ''Failed to initiate payment with Paystack.''
                               (js_get data ''message''))), d)))"

definition initiate_payment ::
  "(db_op \<Rightarrow> bool) \<Rightarrow> nat \<Rightarrow> gateway \<Rightarrow> request \<Rightarrow> db \<Rightarrow> response \<times> db"
where
  "initiate_payment fails now gw req d =
     (if \<not> protect req then (Responded 401 (Message ''Not authorized, no token''), d)
      else
        (let b = Some (body req);
             amt = js_get b ''amount'';
             sid = js_get b ''studentId'';
             sem = js_get b ''semester'';
             year = js_get b ''academicYear'';
             desc = js_get b ''description'';
             email = js_get b ''email''
         in if \<not> truthy amt \<or> \<not> truthy sid \<or> \<not> truthy sem \<or> \<not> truthy year
               \<or> \<not> truthy email
            then (Responded 400 (Message
                    ''Missing required payment details (amount, studentId, semester, academicYear, email).''), d)
            else if amount_throws amt then (Unhandled TypeError, d)
            else if not_positive amt
            then (Responded 400 (Message ''Amount must be positive.''), d)
            else
              (case initiate_try fails now gw amt sid sem year desc d of
                 (Inl e, d') \<Rightarrow> (Responded 500 (Message_error ''Failed to initiate payment.'' e), d')
               | (Inr r, d') \<Rightarrow> (r, d'))))"

subsection \<open>\<^verbatim>\<open>GET /verify-payment/:reference\<close>\<close>

text \<open>
  \<^verbatim>\<open>updatedPayment._id\<close> is read while the student update is being built: when no
  payment matched, the read throws before \<^verbatim>\<open>Student.findByIdAndUpdate\<close> is called.
\<close>

definition verify_try ::
  "(db_op \<Rightarrow> bool) \<Rightarrow> nat \<Rightarrow> gateway \<Rightarrow> string \<Rightarrow> db \<Rightarrow> (error + response) \<times> db"
where
  "verify_try fails now gw reference d =
     (case gw of
        Gateway_threw \<Rightarrow> (Inl GatewayError, d)
      | Gateway_returned data \<Rightarrow>
          if nullish data then (Inl TypeError, d)
          else
            (let paystackData = js_get data ''data'' in
             if truthy paystackData \<and> js_get paystackData ''status'' = Some (JStr ''success'') then
               (let metadata = js_get paystackData ''metadata'' in
                if nullish metadata then (Inl TypeError, d)
                else
                  (case Payment_findOneAndUpdate fails (Some reference)
                          (set_success (as_string (js_get paystackData ''paid_at'')) now) d of
                     Inl e \<Rightarrow> (Inl e, d)
                   | Inr (None, d1) \<Rightarrow> (Inl TypeError, d1)
                   | Inr (Some updatedPayment, d1) \<Rightarrow>
                       (case Student_findByIdAndUpdate fails (as_string (js_get metadata ''student_id''))
                               (set_paid (as_string (js_get metadata ''semester''))
                                         (as_string (js_get metadata ''academic_year''))
                                         (Some (p_id updatedPayment))) d1 of
                          Inl e \<Rightarrow> (Inl e, d1)
                        | Inr d2 \<Rightarrow> (Inr (Responded 200 (Verified (Some updatedPayment))), d2))))
             else if nullish paystackData then (Inl TypeError, d)
             else
               (Inr (Responded 400
                       (Message_details ''Payment verification failed.''
                          (if truthy (js_get paystackData ''gateway_response'')
                           then js_get paystackData ''gateway_response''
                           else Some (JStr ''Unknown status'')))), d)))"

definition verify_payment ::
  "(db_op \<Rightarrow> bool) \<Rightarrow> nat \<Rightarrow> gateway \<Rightarrow> request \<Rightarrow> db \<Rightarrow> response \<times> db"
where
  "verify_payment fails now gw req d =
     (if \<not> protect req then (Responded 401 (Message ''Not authorized, no token''), d)
      else
        (case verify_try fails now gw (params_reference req) d of
           (Inl e, d') \<Rightarrow> (Responded 500 (Message_error ''Failed to verify payment.'' e), d')
         | (Inr r, d') \<Rightarrow> (r, d')))"

subsection \<open>\<^verbatim>\<open>POST /webhook\<close>\<close>

text \<open>
  The keyed hash is a parameter: \<open>hmac secret text\<close> stands for
  \<^verbatim>\<open>crypto.createHmac('sha512', secret).update(text).digest('hex')\<close>. The handler
  feeds it \<^verbatim>\<open>JSON.stringify(req.body)\<close> and compares the digest with the header
  by \<^verbatim>\<open>==\<close>.
\<close>

definition webhook_hash :: "(string \<Rightarrow> string \<Rightarrow> string) \<Rightarrow> string \<Rightarrow> request \<Rightarrow> string" where
  "webhook_hash hmac secret req = hmac secret (JSON_stringify (body req))"

definition signature_ok :: "(string \<Rightarrow> string \<Rightarrow> string) \<Rightarrow> string \<Rightarrow> request \<Rightarrow> bool" where
  "signature_ok hmac secret req = (Some (webhook_hash hmac secret req) = x_paystack_signature req)"

text \<open>
  The \<^verbatim>\<open>try\<close> of the \<^verbatim>\<open>charge.success\<close> branch; \<open>Some e\<close> is the exception the
  \<^verbatim>\<open>catch\<close> receives, with the store as the statements before it left it. In the
  branch that creates the record, the template literal names \<^verbatim>\<open>academicYear\<close>, which
  the handler never declares: it is evaluated, and throws a ReferenceError, when
  \<^verbatim>\<open>metadata.description\<close> is falsy.
\<close>

definition charge_success_try ::
  "(db_op \<Rightarrow> bool) \<Rightarrow> nat \<Rightarrow> jsval \<Rightarrow> jsval \<Rightarrow> jsval \<Rightarrow> jsval \<Rightarrow> jsval \<Rightarrow> db \<Rightarrow> error option \<times> db"
where
  "charge_success_try fails now paystackData reference student_id sem academic_year d =
     (case Payment_findOneAndUpdate fails (as_string reference)
             (set_success (as_string (js_get paystackData ''paid_at'')) now) d of
        Inl e \<Rightarrow> (Some e, d)
      | Inr (Some updatedPayment, d1) \<Rightarrow>
          (case Student_findByIdAndUpdate fails (as_string student_id)
                  (set_paid (as_string sem) (as_string academic_year) (Some (p_id updatedPayment))) d1 of
             Inl e \<Rightarrow> (Some e, d1)
           | Inr d2 \<Rightarrow> (None, d2))
      | Inr (None, d1) \<Rightarrow>
          if \<not> truthy (js_get (js_get paystackData ''metadata'') ''description'')
          then (Some ReferenceError, d1)
          else
            (case Payment_save fails now
                    \<lparr>f_studentId = as_string student_id,
                     f_paystackReference = as_string reference,
                     f_amount = as_number (js_get paystackData ''amount''),
                     f_currency = as_string (js_get paystackData ''currency''),
                     f_status = ''success'',
                     f_semester = as_string sem,
                     f_academicYear = as_string academic_year,
                     f_description = as_string (js_get (js_get paystackData ''metadata'') ''description''),
                     f_paidAt = as_string (js_get paystackData ''paid_at''),
                     f_createdAt = Some now,
                     f_updatedAt = Some now\<rparr> d1 of
               Inl e \<Rightarrow> (Some e, d1)
             | Inr (newPayment, d2) \<Rightarrow>
                 (case Student_findByIdAndUpdate fails (as_string student_id)
                         (set_paid (as_string sem) (as_string academic_year) (Some (p_id newPayment))) d2 of
                    Inl e \<Rightarrow> (Some e, d2)
                  | Inr d3 \<Rightarrow> (None, d3))))"

definition charge_failed_try :: "(db_op \<Rightarrow> bool) \<Rightarrow> nat \<Rightarrow> jsval \<Rightarrow> db \<Rightarrow> error option \<times> db" where
  "charge_failed_try fails now reference d =
     (case Payment_findOneAndUpdate fails (as_string reference) (set_failed now) d of
        Inl e \<Rightarrow> (Some e, d)
      | Inr (updated, d1) \<Rightarrow> (None, d1))"

definition webhook ::
  "(string \<Rightarrow> string \<Rightarrow> string) \<Rightarrow> string \<Rightarrow> (db_op \<Rightarrow> bool) \<Rightarrow> nat \<Rightarrow> request \<Rightarrow> db \<Rightarrow> response \<times> db"
where
  "webhook hmac secret fails now req d =
     (if signature_ok hmac secret req then
        (let event = Some (body req) in
         if js_get event ''event'' = Some (JStr ''charge.success'') then
           (let paystackData = js_get event ''data'' in
            if nullish paystackData then (Unhandled TypeError, d)
            else
              (let reference = js_get paystackData ''reference'';
                   metadata = js_get paystackData ''metadata''
               in if nullish metadata then (Unhandled TypeError, d)
                  else
                    (case charge_success_try fails now paystackData reference
                            (js_get metadata ''student_id'') (js_get metadata ''semester'')
                            (js_get metadata ''academic_year'') d of
                       (Some e, d') \<Rightarrow> (Responded 500 (Received_message ''Database update failed''), d')
                     | (None, d') \<Rightarrow> (Responded 200 Received, d'))))
         else if js_get event ''event'' = Some (JStr ''charge.failed'') then
           (let paystackData = js_get event ''data'' in
            if nullish paystackData then (Unhandled TypeError, d)
            else
              (case charge_failed_try fails now (js_get paystackData ''reference'') d of
                 (Some e, d') \<Rightarrow>
                   (Responded 500 (Received_message ''Database update failed for failed payment''), d')
               | (None, d') \<Rightarrow> (Responded 200 Received, d')))
         else (Responded 200 Received, d))
      else (Responded 400 (Text ''Invalid signature''), d))"

section \<open>The second version of the payment routes (\<^verbatim>\<open>unnamed/part_004\<close>)\<close>

text \<open>
  The same three routes, with the model imported as \<^verbatim>\<open>Transaction\<close>. The
  initiation checks the gateway's reference and answers 409 on a duplicate key; the
  verification goes on to the student when no record matched; the webhook reads the
  metadata with \<^verbatim>\<open>?.\<close>, answers 400 when a part of it is missing, and its template
  literal names \<^verbatim>\<open>academic_year\<close>. The \<^verbatim>\<open>charge.failed\<close> branch is unchanged.
\<close>

definition initiate_try2 ::
  "(db_op \<Rightarrow> bool) \<Rightarrow> nat \<Rightarrow> gateway \<Rightarrow> jsval \<Rightarrow> jsval \<Rightarrow> jsval \<Rightarrow> jsval \<Rightarrow> jsval \<Rightarrow> db
    \<Rightarrow> (error + response) \<times> db"
where
  "initiate_try2 fails now gw amt sid sem year desc d =
     (case Student_findById fails sid d of
        Inl e \<Rightarrow> (Inl e, d)
      | Inr None \<Rightarrow> (Inr (Responded 404 (Message ''Student not found.'')), d)
      | Inr (Some student) \<Rightarrow>
          (let amountInKobo = Math_round (times_100 (amount_number amt)) in
           case gw of
             Gateway_threw \<Rightarrow> (Inl GatewayError, d)
           | Gateway_returned data \<Rightarrow>
               if truthy data \<and> truthy (js_get data ''status'') then
                 (let paystackData = js_get data ''data'' in
                  if nullish paystackData then (Inl TypeError, d)
                  else if \<not> truthy (js_get paystackData ''reference'') then
                    (Inr (Responded 500
                            (Message ''Failed to initiate payment: Paystack reference missing.'')), d)
                  else
                    (case Payment_save fails now
                            \<lparr>f_studentId = Some (s_id student),
                             f_paystackReference = as_string (js_get paystackData ''reference''),
                             f_amount = Number_path amountInKobo,
                             f_currency = Some ''NGN'',
                             f_status = ''pending'',
                             f_semester = as_string sem,
                             f_academicYear = as_string year,
                             f_description = description_or desc sem year,
                             f_paidAt = None,
                             f_createdAt = None,
                             f_updatedAt = None\<rparr> d of
                       Inl e \<Rightarrow> (Inl e, d)
                     | Inr (newTransaction, d') \<Rightarrow>
                         (Inr (Responded 200
                                 (Initiated (js_get paystackData ''authorization_url'')
                                            (js_get paystackData ''access_code'')
                                            (js_get paystackData ''reference'')
                                            (p_id newTransaction))), d')))
               else if nullish data then (Inl TypeError, d)
               else (Inr (Responded 500
                            (Message_details ''Failed to initiate payment with Paystack.''
                               (js_get data ''message''))), d)))"

definition initiate_payment2 ::
  "(db_op \<Rightarrow> bool) \<Rightarrow> nat \<Rightarrow> gateway \<Rightarrow> request \<Rightarrow> db \<Rightarrow> response \<times> db"
where
  "initiate_payment2 fails now gw req d =
     (if \<not> protect req then (Responded 401 (Message ''Not authorized, no token''), d)
      else
        (let b = Some (body req);
             amt = js_get b ''amount'';
             sid = js_get b ''studentId'';
             sem = js_get b ''semester'';
             year = js_get b ''academicYear'';
             desc = js_get b ''description'';
             email = js_get b ''email''
         in if \<not> truthy amt \<or> \<not> truthy sid \<or> \<not> truthy sem \<or> \<not> truthy year
               \<or> \<not> truthy email
            then (Responded 400 (Message
                    ''Missing required payment details (amount, studentId, semester, academicYear, email).''), d)
            else if amount_throws amt then (Unhandled TypeError, d)
            else if not_positive amt
            then (Responded 400 (Message ''Amount must be positive.''), d)
            else
              (case initiate_try2 fails now gw amt sid sem year desc d of
                 (Inl DuplicateKey, d') \<Rightarrow>
                   (Responded 409 (Message_error
                      ''A payment for this reference already exists or a unique constraint was violated.''
                      DuplicateKey), d')
               | (Inl e, d') \<Rightarrow> (Responded 500 (Message_error ''Failed to initiate payment.'' e), d')
               | (Inr r, d') \<Rightarrow> (r, d'))))"

definition verify_try2 ::
  "(db_op \<Rightarrow> bool) \<Rightarrow> nat \<Rightarrow> gateway \<Rightarrow> string \<Rightarrow> db \<Rightarrow> (error + response) \<times> db"
where
  "verify_try2 fails now gw reference d =
     (case gw of
        Gateway_threw \<Rightarrow> (Inl GatewayError, d)
      | Gateway_returned data \<Rightarrow>
          if nullish data then (Inl TypeError, d)
          else
            (let paystackData = js_get data ''data'' in
             if truthy paystackData \<and> js_get paystackData ''status'' = Some (JStr ''success'') then
               (let metadata = js_get paystackData ''metadata'' in
                if nullish metadata then (Inl TypeError, d)
                else
                  (case Payment_findOneAndUpdate fails (Some reference)
                          (set_success (as_string (js_get paystackData ''paid_at'')) now) d of
                     Inl e \<Rightarrow> (Inl e, d)
                   | Inr (updatedTransaction, d1) \<Rightarrow>
                       (case Student_findByIdAndUpdate fails (as_string (js_get metadata ''student_id''))
                               (set_paid (as_string (js_get metadata ''semester''))
                                         (as_string (js_get metadata ''academic_year''))
                                         (map_option p_id updatedTransaction)) d1 of
                          Inl e \<Rightarrow> (Inl e, d1)
                        | Inr d2 \<Rightarrow> (Inr (Responded 200 (Verified updatedTransaction)), d2))))
             else if nullish paystackData then (Inl TypeError, d)
             else
               (Inr (Responded 400
                       (Message_details ''Payment verification failed.''
                          (if truthy (js_get paystackData ''gateway_response'')
                           then js_get paystackData ''gateway_response''
                           else Some (JStr ''Unknown status'')))), d)))"

definition verify_payment2 ::
  "(db_op \<Rightarrow> bool) \<Rightarrow> nat \<Rightarrow> gateway \<Rightarrow> request \<Rightarrow> db \<Rightarrow> response \<times> db"
where
  "verify_payment2 fails now gw req d =
     (if \<not> protect req then (Responded 401 (Message ''Not authorized, no token''), d)
      else
        (case verify_try2 fails now gw (params_reference req) d of
           (Inl e, d') \<Rightarrow> (Responded 500 (Message_error ''Failed to verify payment.'' e), d')
         | (Inr r, d') \<Rightarrow> (r, d')))"

definition charge_success_try2 ::
  "(db_op \<Rightarrow> bool) \<Rightarrow> nat \<Rightarrow> jsval \<Rightarrow> jsval \<Rightarrow> jsval \<Rightarrow> jsval \<Rightarrow> jsval \<Rightarrow> jsval \<Rightarrow> db
    \<Rightarrow> error option \<times> db"
where
  "charge_success_try2 fails now paystackData reference student_id sem academic_year desc d =
     (case Payment_findOneAndUpdate fails (as_string reference)
             (set_success (as_string (js_get paystackData ''paid_at'')) now) d of
        Inl e \<Rightarrow> (Some e, d)
      | Inr (Some updatedTransaction, d1) \<Rightarrow>
          (case Student_findByIdAndUpdate fails (as_string student_id)
                  (set_paid (as_string sem) (as_string academic_year)
                     (Some (p_id updatedTransaction))) d1 of
             Inl e \<Rightarrow> (Some e, d1)
           | Inr d2 \<Rightarrow> (None, d2))
      | Inr (None, d1) \<Rightarrow>
          (case Payment_save fails now
                  \<lparr>f_studentId = as_string student_id,
                   f_paystackReference = as_string reference,
                   f_amount = as_number (js_get paystackData ''amount''),
                   f_currency = as_string (js_get paystackData ''currency''),
                   f_status = ''success'',
                   f_semester = as_string sem,
                   f_academicYear = as_string academic_year,
                   f_description = description_or desc sem academic_year,
                   f_paidAt = as_string (js_get paystackData ''paid_at''),
                   f_createdAt = Some now,
                   f_updatedAt = Some now\<rparr> d1 of
             Inl e \<Rightarrow> (Some e, d1)
           | Inr (newTransaction, d2) \<Rightarrow>
               (case Student_findByIdAndUpdate fails (as_string student_id)
                       (set_paid (as_string sem) (as_string academic_year)
                          (Some (p_id newTransaction))) d2 of
                  Inl e \<Rightarrow> (Some e, d2)
                | Inr d3 \<Rightarrow> (None, d3))))"

definition webhook2 ::
  "(string \<Rightarrow> string \<Rightarrow> string) \<Rightarrow> string \<Rightarrow> (db_op \<Rightarrow> bool) \<Rightarrow> nat \<Rightarrow> request \<Rightarrow> db \<Rightarrow> response \<times> db"
where
  "webhook2 hmac secret fails now req d =
     (if signature_ok hmac secret req then
        (let event = Some (body req) in
         if js_get event ''event'' = Some (JStr ''charge.success'') then
           (let paystackData = js_get event ''data'' in
            if nullish paystackData then (Unhandled TypeError, d)
            else
              (let reference = js_get paystackData ''reference'';
                   metadata = js_get paystackData ''metadata'';
                   student_id = js_get metadata ''student_id'';
                   sem = js_get metadata ''semester'';
                   academic_year = js_get metadata ''academic_year'';
                   desc = js_get metadata ''description''
               in if \<not> truthy student_id \<or> \<not> truthy sem \<or> \<not> truthy academic_year
                  then (Responded 400 (Received_message ''Missing metadata''), d)
                  else
                    (case charge_success_try2 fails now paystackData reference student_id sem
                            academic_year desc d of
                       (Some e, d') \<Rightarrow> (Responded 500 (Received_message ''Database update failed''), d')
                     | (None, d') \<Rightarrow> (Responded 200 Received, d'))))
         else if js_get event ''event'' = Some (JStr ''charge.failed'') then
           (let paystackData = js_get event ''data'' in
            if nullish paystackData then (Unhandled TypeError, d)
            else
              (case charge_failed_try fails now (js_get paystackData ''reference'') d of
                 (Some e, d') \<Rightarrow>
                   (Responded 500 (Received_message ''Database update failed for failed payment''), d')
               | (None, d') \<Rightarrow> (Responded 200 Received, d')))
         else (Responded 200 Received, d))
      else (Responded 400 (Text ''Invalid signature''), d))"

section \<open>Reading a webhook event, and concrete deliveries\<close>

text \<open>The parts of the event the webhook handlers read, named for the statements below.\<close>

definition event_name :: "request \<Rightarrow> jsval" where
  "event_name req = js_get (Some (body req)) ''event''"

definition event_data :: "request \<Rightarrow> jsval" where
  "event_data req = js_get (Some (body req)) ''data''"

definition event_reference :: "request \<Rightarrow> string option" where
  "event_reference req = as_string (js_get (event_data req) ''reference'')"

definition event_paid_at :: "request \<Rightarrow> string option" where
  "event_paid_at req = as_string (js_get (event_data req) ''paid_at'')"

definition event_metadata :: "request \<Rightarrow> jsval" where
  "event_metadata req = js_get (event_data req) ''metadata''"

definition metadata_string :: "request \<Rightarrow> string \<Rightarrow> string option" where
  "metadata_string req k = as_string (js_get (event_metadata req) k)"

text \<open>
  The charge inside an answer of the gateway (\<^verbatim>\<open>paystackResponse.data.data\<close>), and
  a member of the body of a client's request.
\<close>

definition provider_data :: "gateway \<Rightarrow> jsval" where
  "provider_data gw = (case gw of Gateway_threw \<Rightarrow> None | Gateway_returned data \<Rightarrow> js_get data ''data'')"

definition body_field :: "request \<Rightarrow> string \<Rightarrow> jsval" where
  "body_field req k = js_get (Some (body req)) k"

text \<open>
  The two tests of the webhook and of the initiation that the statements below name:
  the metadata a \<^verbatim>\<open>charge.success\<close> event must carry in the second version, and
  the members a payment request must carry.
\<close>

definition metadata_complete :: "request \<Rightarrow> bool" where
  "metadata_complete req =
     (truthy (js_get (event_metadata req) ''student_id'')
      \<and> truthy (js_get (event_metadata req) ''semester'')
      \<and> truthy (js_get (event_metadata req) ''academic_year''))"

definition details_present :: "request \<Rightarrow> bool" where
  "details_present req =
     (truthy (body_field req ''amount'') \<and> truthy (body_field req ''studentId'')
      \<and> truthy (body_field req ''semester'') \<and> truthy (body_field req ''academicYear'')
      \<and> truthy (body_field req ''email''))"


text \<open>The stored payment a reference names, and the stored student an id names.\<close>

definition payment_of :: "string \<Rightarrow> db \<Rightarrow> payment option" where
  "payment_of r d = find (has_reference (Some r)) (payments d)"

definition student_of :: "string \<Rightarrow> db \<Rightarrow> student option" where
  "student_of i d = find (has_id (Some i)) (students d)"

text \<open>
  A trigger of the reconciliation is a delivery of the webhook or a verification by a
  client, served at a given time; \<open>run_triggers\<close> is the store after a sequence of
  them. \<open>success_trigger hmac secret r i\<close> holds of a trigger that reports success
  for the reference \<open>r\<close> with the student \<open>i\<close>, a semester and an academic year
  in its metadata: a signed \<^verbatim>\<open>charge.success\<close> event, or a verification whose
  gateway answer has the status \<^verbatim>\<open>success\<close>.
\<close>

datatype trigger = Webhook_delivery nat request | Client_verify nat gateway request

definition apply_trigger ::
  "(string \<Rightarrow> string \<Rightarrow> string) \<Rightarrow> string \<Rightarrow> (db_op \<Rightarrow> bool) \<Rightarrow> trigger \<Rightarrow> db \<Rightarrow> db"
where
  "apply_trigger hmac secret fails t d =
     (case t of
        Webhook_delivery now req \<Rightarrow> snd (webhook hmac secret fails now req d)
      | Client_verify now gw req \<Rightarrow> snd (verify_payment fails now gw req d))"

definition run_triggers ::
  "(string \<Rightarrow> string \<Rightarrow> string) \<Rightarrow> string \<Rightarrow> (db_op \<Rightarrow> bool) \<Rightarrow> trigger list \<Rightarrow> db \<Rightarrow> db"
where
  "run_triggers hmac secret fails ts d = fold (apply_trigger hmac secret fails) ts d"

definition trigger_charge :: "trigger \<Rightarrow> jsval" where
  "trigger_charge t =
     (case t of
        Webhook_delivery now req \<Rightarrow> event_data req
      | Client_verify now gw req \<Rightarrow> provider_data gw)"

definition trigger_metadata :: "trigger \<Rightarrow> string \<Rightarrow> string option" where
  "trigger_metadata t k = as_string (js_get (js_get (trigger_charge t) ''metadata'') k)"

definition success_trigger ::
  "(string \<Rightarrow> string \<Rightarrow> string) \<Rightarrow> string \<Rightarrow> string \<Rightarrow> string \<Rightarrow> trigger \<Rightarrow> bool"
where
  "success_trigger hmac secret r i t =
     ((case t of
         Webhook_delivery now req \<Rightarrow>
           signature_ok hmac secret req \<and> event_name req = Some (JStr ''charge.success'')
           \<and> event_reference req = Some r
       | Client_verify now gw req \<Rightarrow>
           protect req \<and> params_reference req = r
           \<and> js_get (provider_data gw) ''status'' = Some (JStr ''success''))
      \<and> \<not> nullish (js_get (trigger_charge t) ''metadata'')
      \<and> trigger_metadata t ''student_id'' = Some i
      \<and> trigger_metadata t ''semester'' \<noteq> None
      \<and> trigger_metadata t ''academic_year'' \<noteq> None)"

text \<open>
  Concrete inputs for the runs below. \<open>prefix_key\<close> takes the place of the keyed hash
  in a run (the theorems are about every function in that place); \<open>delivery\<close> is a
  request whose header is the keyed hash of the compact form of its body, as the gateway
  signs it; \<open>charge_event\<close> is an event of the gateway with its metadata members;
  \<open>never\<close> and \<open>only op\<close> say which store operations throw.
\<close>

definition prefix_key :: "string \<Rightarrow> string \<Rightarrow> string" where
  "prefix_key key msg = key @ msg"

definition delivery :: "(string \<Rightarrow> string \<Rightarrow> string) \<Rightarrow> string \<Rightarrow> json \<Rightarrow> request" where
  "delivery hmac secret j =
     \<lparr>authorization = None,
      x_paystack_signature = Some (hmac secret (JSON_stringify j)),
      params_reference = [],
      body = j\<rparr>"

definition charge_event :: "string \<Rightarrow> string \<Rightarrow> string \<Rightarrow> (string \<times> json) list \<Rightarrow> json" where
  "charge_event name r paid members =
     JObj [(''event'', JStr name),
           (''data'', JObj [(''reference'', JStr r), (''amount'', JNum 500000),
                            (''currency'', JStr ''NGN''), (''paid_at'', JStr paid),
                            (''metadata'', JObj members)])]"

definition term_metadata :: "string \<Rightarrow> string \<Rightarrow> string \<Rightarrow> (string \<times> json) list" where
  "term_metadata i sem year =
     [(''student_id'', JStr i), (''semester'', JStr sem), (''academic_year'', JStr year)]"

definition unpaid_student :: "string \<Rightarrow> student" where
  "unpaid_student i =
     \<lparr>s_id = i, currentSemesterPaymentStatus = ''unpaid'', lastPaidSemester = None,
      lastPaidAcademicYear = None, paymentHistory = []\<rparr>"

definition pending_payment :: "nat \<Rightarrow> string \<Rightarrow> string \<Rightarrow> string \<Rightarrow> payment" where
  "pending_payment i r sid sem =
     \<lparr>p_id = i, studentId = sid, paystackReference = r, amount = Finite 500000, currency = ''NGN'',
      status = ''pending'', semester = sem, academicYear = ''2025/2026'',
      description = Some ''Fees'', paidAt = None, createdAt = 1, updatedAt = 1\<rparr>"

definition never :: "db_op \<Rightarrow> bool" where
  "never op = False"

definition only :: "db_op \<Rightarrow> db_op \<Rightarrow> bool" where
  "only op op' = (op' = op)"

definition example_store :: db where
  "example_store =
     \<lparr>payments = [pending_payment 1 ''R1'' ''S1'' ''Fall''],
      students = [unpaid_student ''S1'']\<rparr>"

definition two_term_store :: db where
  "two_term_store =
     \<lparr>payments = [pending_payment 1 ''R1'' ''S1'' ''Fall'', pending_payment 2 ''R2'' ''S1'' ''Spring''],
      students = [unpaid_student ''S1'']\<rparr>"

definition fall_success :: request where
  "fall_success =
     delivery prefix_key ''sk''
       (charge_event ''charge.success'' ''R1'' ''T1'' (term_metadata ''S1'' ''Fall'' ''2025/2026''))"

definition spring_success :: request where
  "spring_success =
     delivery prefix_key ''sk''
       (charge_event ''charge.success'' ''R2'' ''T2'' (term_metadata ''S1'' ''Spring'' ''2025/2026''))"

text \<open>
  A request of a signed-in client, and answers of the gateway: to a verification, with
  the status of the charge, and to an initialisation, with the reference it issued.
\<close>

definition client_request :: "string \<Rightarrow> json \<Rightarrow> request" where
  "client_request r j =
     \<lparr>authorization = Some ''Bearer token'', x_paystack_signature = None,
      params_reference = r, body = j\<rparr>"

definition charge_answer :: "string \<Rightarrow> string \<Rightarrow> (string \<times> json) list \<Rightarrow> gateway" where
  "charge_answer st paid members =
     Gateway_returned (Some (JObj
       [(''status'', JBool True),
        (''data'', JObj [(''status'', JStr st), (''paid_at'', JStr paid),
                         (''gateway_response'', JStr ''Gateway message''),
                         (''metadata'', JObj members)])]))"

definition initialize_answer :: "string \<Rightarrow> gateway" where
  "initialize_answer r =
     Gateway_returned (Some (JObj
       [(''status'', JBool True),
        (''data'', JObj [(''authorization_url'', JStr ''https://checkout.paystack.com/x''),
                         (''access_code'', JStr ''x''), (''reference'', JStr r)])]))"

definition payment_request :: "json \<Rightarrow> string \<Rightarrow> json" where
  "payment_request amt i =
     JObj [(''amount'', amt), (''studentId'', JStr i), (''semester'', JStr ''Fall''),
           (''academicYear'', JStr ''2025/2026''), (''email'', JStr ''s1@campus.example'')]"

text \<open>A store for the initiation: its student has a printed ObjectId.\<close>

definition enrolled :: string where
  "enrolled = ''64b7f0c2a1d3e4f5a6b7c8d9''"

definition campus_store :: db where
  "campus_store =
     \<lparr>payments = [pending_payment 1 ''R1'' enrolled ''Fall''],
      students = [unpaid_student enrolled]\<rparr>"



section \<open>Facts about numbers\<close>

lemma bits_le: "n < 2 ^ k \<Longrightarrow> bits n \<le> k"
proof (induction n arbitrary: k rule: bits.induct)
  case (1 n)
  show ?case
  proof (cases "n = 0")
    case True
    then show ?thesis by (simp add: bits.simps)
  next
    case False
    then obtain j where k: "k = Suc j"
      using 1(2) by (cases k) auto
    have "n div 2 < 2 ^ j"
      using 1(2) k by auto
    then have "bits (n div 2) \<le> j"
      using 1(1) False by simp
    then show ?thesis
      using False k by (subst bits.simps) simp
  qed
qed

lemma bits_lower: "0 < n \<Longrightarrow> 2 ^ (bits n - 1) \<le> n"
proof (induction n rule: bits.induct)
  case (1 n)
  show ?case
  proof (cases "n div 2 = 0")
    case True
    then have "bits n = 1"
      using 1(2) by (subst bits.simps) (simp add: bits.simps)
    then show ?thesis using 1(2) by simp
  next
    case False
    then have ih: "2 ^ (bits (n div 2) - 1) \<le> n div 2"
      using 1 by simp
    have pos: "0 < bits (n div 2)"
      using False by (subst bits.simps) simp
    have "bits n - 1 = Suc (bits (n div 2) - 1)"
      using 1(2) pos by (subst bits.simps) simp
    then have "(2::nat) ^ (bits n - 1) = 2 * 2 ^ (bits (n div 2) - 1)"
      by simp
    also have "\<dots> \<le> 2 * (n div 2)"
      using ih by simp
    also have "\<dots> \<le> n"
      by simp
    finally show ?thesis .
  qed
qed

lemma nearest_even_of_int: "nearest_even (of_int k) = k"
  by (simp add: nearest_even_def)

text \<open>An integer below \<open>2 ^ 53\<close> is a double.\<close>

lemma double_of_pos_int:
  assumes "0 < n" and "n < 2 ^ 53"
  shows "double (of_int n) = Finite (of_int n)"
proof -
  have "nat n < 2 ^ 53"
    using assms by (simp add: nat_less_iff)
  then have "bits (nat n) \<le> 53"
    by (rule bits_le)
  moreover have "(1::rat) \<le> of_int n"
    using assms(1) by (simp add: of_int_1_le_iff)
  then have "binade (of_int n) = int (bits (nat n)) - 1"
    by (simp only: binade_def if_True floor_of_int)
  ultimately have b: "binade (of_int n) \<le> 52"
    by simp
  define e where "e = max (binade (of_int n) - 52) (- 1074)"
  define k where "k = nat (- e)"
  have e: "e \<le> 0" "e = - int k"
    using b by (simp_all add: e_def k_def)
  have p: "(2::rat) powi e = 1 / 2 ^ k"
    unfolding e(2) by (simp add: power_int_minus field_simps)
  have x: "(of_int n :: rat) / 2 powi e = of_int (n * 2 ^ k)"
    by (simp add: p)
  have v: "of_int (nearest_even (of_int n / 2 powi e)) * 2 powi e = (of_int n :: rat)"
    unfolding x nearest_even_of_int by (simp add: p)
  have small: "\<not> (2 :: rat) ^ 1024 \<le> of_int n"
  proof -
    have "(of_int n :: rat) < of_int (2 ^ 53)"
      using assms(2) by (simp only: of_int_less_iff)
    then show ?thesis by simp
  qed
  show ?thesis
    using assms(1) v small by (simp add: double_def Let_def e_def[symmetric])
qed

lemma double_minus:
  "double (- q) = (case double q of Finite v \<Rightarrow> Finite (- v) | NaN \<Rightarrow> NaN
                   | Infinity \<Rightarrow> Minus_Infinity | Minus_Infinity \<Rightarrow> Infinity)"
  by (cases "q = 0"; cases "0 < q") (auto simp: double_def Let_def)

lemma double_of_int:
  assumes "\<bar>n\<bar> < 2 ^ 53"
  shows "double (of_int n) = Finite (of_int n)"
proof -
  consider "n = 0" | "0 < n" | "n < 0" by linarith
  then show ?thesis
  proof cases
    case 1
    then show ?thesis by (simp add: double_def)
  next
    case 2
    then show ?thesis using assms by (simp add: double_of_pos_int)
  next
    case 3
    then have "double (of_int (- n)) = Finite (of_int (- n))"
      using assms by (intro double_of_pos_int) simp_all
    then show ?thesis
      using double_minus[of "of_int (- n)"] by simp
  qed
qed

text \<open>A value from 1 on rounds to a positive double or to Infinity.\<close>

lemma double_positive:
  assumes "1 \<le> q"
  shows "double q = Infinity \<or> (\<exists>v. 0 < v \<and> double q = Finite v)"
proof -
  define n where "n = nat \<lfloor>q\<rfloor>"
  define b where "b = binade q"
  define e where "e = max (b - 52) (- 1074)"
  have n: "0 < n" "of_nat n \<le> q"
    using assms by (simp_all add: n_def le_floor_iff floor_less_iff)
  have b: "b = int (bits n) - 1"
    using assms by (simp add: b_def binade_def n_def)
  have "0 < bits n"
    using n(1) by (subst bits.simps) simp
  then have b0: "0 \<le> b" "nat b = bits n - 1"
    using b by simp_all
  have e: "e \<le> b"
    using b0 by (simp add: e_def)
  have "(2::rat) powi e \<le> 2 powi b"
    using e by (intro power_int_increasing) simp_all
  also have "\<dots> = of_nat (2 ^ (bits n - 1))"
    using b0 by (simp add: power_int_def)
  also have "\<dots> \<le> of_nat n"
    using bits_lower[OF n(1)] by (simp only: of_nat_le_iff)
  also have "\<dots> \<le> q"
    by (rule n(2))
  finally have le: "2 powi e \<le> q" .
  have p: "(0::rat) < 2 powi e"
    by (simp add: power_int_def)
  then have "1 \<le> q / 2 powi e"
    using le by (simp add: field_simps)
  then have "1 \<le> \<lfloor>q / 2 powi e\<rfloor>"
    by (simp add: le_floor_iff)
  moreover have "\<lfloor>x\<rfloor> \<le> nearest_even x" for x
    by (simp add: nearest_even_def Let_def)
  ultimately have "0 < nearest_even (q / 2 powi e)"
    by (meson less_le_trans zero_less_one order_trans)
  then have "0 < (of_int (nearest_even (q / 2 powi e)) :: rat) * 2 powi e"
    using p by simp
  then show ?thesis
    using assms by (auto simp: double_def Let_def e_def[symmetric] b_def[symmetric])
qed

text \<open>
  A positive JSON number passes the test of the amount, and an amount whose hundredfold
  is below \<open>2 ^ 53\<close> is turned into kobo exactly.
\<close>

lemma positive_amount:
  assumes "0 < a"
  shows "\<not> amount_throws (Some (JNum a))" and "\<not> not_positive (Some (JNum a))"
proof -
  show "\<not> amount_throws (Some (JNum a))"
    by (simp add: amount_throws_def)
  have "(1::rat) \<le> of_int a"
    using assms by (simp add: of_int_1_le_iff)
  then show "\<not> not_positive (Some (JNum a))"
    using double_positive[of "of_int a"] by (auto simp: not_positive_def amount_number_def)
qed

lemma kobo_exact:
  assumes "0 < a" and "a * 100 < 2 ^ 53"
  shows "Math_round (times_100 (amount_number (Some (JNum a)))) = Finite (of_int (a * 100))"
proof -
  have "\<bar>a\<bar> < 2 ^ 53" "\<bar>a * 100\<bar> < 2 ^ 53"
    using assms by simp_all
  then have "double (of_int a) = Finite (of_int a)"
    and "double (of_int (a * 100)) = Finite (of_int (a * 100))"
    by (simp_all only: double_of_int)
  moreover have "\<lfloor>(of_int k :: rat) + 1 / 2\<rfloor> = k" for k
    by (simp add: floor_unique)
  ultimately show ?thesis
    by (simp add: amount_number_def times_100_def Math_round_def)
qed

section \<open>Facts about the store operations\<close>

lemma update_first_none: "find P xs = None \<Longrightarrow> update_first P f xs = xs"
  by (induction xs) (auto split: if_splits)

lemma find_update_first:
  assumes "\<And>x. P (f x) = P x"
  shows "find P (update_first P f xs) = map_option f (find P xs)"
  using assms by (induction xs) auto

lemma find_holds: "find P xs = Some x \<Longrightarrow> P x"
  by (induction xs) (auto split: if_splits)

lemma find_append_new: "find P xs = None \<Longrightarrow> P x \<Longrightarrow> find P (xs @ [x]) = Some x"
  by (induction xs) (auto split: if_splits)

lemma js_get_Some_obj: "js_get v k = Some x \<Longrightarrow> \<exists>kvs. v = Some (JObj kvs)"
  by (cases "(v, k)" rule: js_get.cases) auto

lemma js_get_Some_truthy: "js_get v k = Some x \<Longrightarrow> truthy v \<and> \<not> nullish v"
  by (auto dest!: js_get_Some_obj simp: nullish_def)

lemma as_string_Some: "as_string v = Some s \<Longrightarrow> v = Some (JStr s)"
  by (cases v rule: as_string.cases) auto

lemma not_nullish_Some: "\<not> nullish v \<Longrightarrow> \<exists>x. v = Some x"
  by (cases v) (simp_all add: nullish_def)

lemma event_reference_data: "event_reference req = Some r \<Longrightarrow> \<not> nullish (event_data req)"
  by (auto simp: event_reference_def dest!: as_string_Some js_get_Some_truthy)

lemma provider_data_not_nullish:
  assumes "\<not> nullish (provider_data gw)"
  shows "\<exists>data. gw = Gateway_returned data \<and> \<not> nullish data
            \<and> js_get data ''data'' = provider_data gw"
proof (cases gw)
  case Gateway_threw
  with assms show ?thesis by (simp add: provider_data_def nullish_def)
next
  case (Gateway_returned data)
  then have "\<not> nullish (js_get data ''data'')"
    using assms by (simp add: provider_data_def)
  then obtain x where "js_get data ''data'' = Some x"
    using not_nullish_Some by blast
  then have "\<not> nullish data"
    by (auto dest: js_get_Some_truthy)
  with Gateway_returned show ?thesis by (simp add: provider_data_def)
qed

lemma provider_data_Some:
  assumes "js_get (provider_data gw) k = Some x"
  shows "\<exists>data. gw = Gateway_returned data \<and> \<not> nullish data
            \<and> js_get data ''data'' = provider_data gw
            \<and> truthy (provider_data gw) \<and> \<not> nullish (provider_data gw)"
  using assms provider_data_not_nullish[of gw] js_get_Some_truthy[OF assms] by auto

lemma has_reference_set_success [simp]:
  "has_reference r (set_success t now p) = has_reference r p"
  by (simp add: has_reference_def set_success_def)

lemma has_reference_set_failed [simp]: "has_reference r (set_failed now p) = has_reference r p"
  by (simp add: has_reference_def set_failed_def)

lemma has_id_set_paid [simp]: "has_id i (set_paid sem year pid s) = has_id i s"
  by (simp add: has_id_def set_paid_def)

lemma findOneAndUpdate_none:
  assumes "find (has_reference r) (payments d) = None" and "\<not> fails UpdatePayment"
  shows "Payment_findOneAndUpdate fails r u d = Inr (None, d)"
  using assms by (simp add: Payment_findOneAndUpdate_def update_first_none)

lemma findOneAndUpdate_some:
  assumes "payment_of r d = Some p" and "\<not> fails UpdatePayment"
    and "\<And>x. has_reference (Some r) (u x) = has_reference (Some r) x"
  shows "\<exists>d1. Payment_findOneAndUpdate fails (Some r) u d = Inr (Some (u p), d1)
            \<and> payment_of r d1 = Some (u p) \<and> students d1 = students d"
  using assms by (simp add: Payment_findOneAndUpdate_def payment_of_def find_update_first)

lemma Student_findByIdAndUpdate_payments:
  "Student_findByIdAndUpdate fails i u d = Inr d' \<Longrightarrow> payments d' = payments d"
  by (auto simp: Student_findByIdAndUpdate_def split: if_splits)

lemma Student_findByIdAndUpdate_some:
  assumes "student_of i d = Some s" and "\<not> fails UpdateStudent"
    and "\<And>x. has_id (Some i) (u x) = has_id (Some i) x"
  shows "\<exists>d'. Student_findByIdAndUpdate fails (Some i) u d = Inr d'
            \<and> student_of i d' = Some (u s) \<and> payments d' = payments d"
  using assms by (simp add: Student_findByIdAndUpdate_def student_of_def find_update_first)

lemma addToSet_distinct: "distinct xs \<Longrightarrow> distinct (addToSet x xs)"
  by (simp add: addToSet_def)

lemma count_list_distinct: "distinct xs \<Longrightarrow> x \<in> set xs \<Longrightarrow> count_list xs x = 1"
  by (induction xs) auto

lemma addToSet_member: "x \<in> set (addToSet x xs)"
  by (simp add: addToSet_def)

lemma signature_ok_delivery: "signature_ok hmac secret (delivery hmac secret j)"
  by (simp add: signature_ok_def webhook_hash_def delivery_def)

lemmas fixture_defs = delivery_def charge_event_def term_metadata_def example_store_def
  pending_payment_def unpaid_student_def never_def prefix_key_def

lemmas reading_defs = event_name_def event_data_def event_reference_def event_paid_at_def
  event_metadata_def metadata_string_def payment_of_def student_of_def has_reference_def has_id_def
  nullish_def

lemmas handler_defs = webhook_def signature_ok_def webhook_hash_def charge_success_try_def
  charge_failed_try_def Payment_findOneAndUpdate_def Student_findByIdAndUpdate_def
  Payment_save_def document_def new_id_def set_success_def set_failed_def set_paid_def addToSet_def

lemmas client_defs = client_request_def payment_request_def initialize_answer_def charge_answer_def
  details_present_def body_field_def not_positive_def protect_def



section \<open>Events the webhook does not act on\<close>

text \<open>
  C8. A webhook whose signature verifies and whose event type is neither
  \<^verbatim>\<open>charge.success\<close> nor \<^verbatim>\<open>charge.failed\<close> changes no payment and no student,
  and is acknowledged with 200 \<^verbatim>\<open>{received: true}\<close>, in both versions of the route.
\<close>

theorem webhook_ignores_other_events:
  assumes "signature_ok hmac secret req"
    and "event_name req \<noteq> Some (JStr ''charge.success'')"
    and "event_name req \<noteq> Some (JStr ''charge.failed'')"
  shows "webhook hmac secret fails now req d = (Responded 200 Received, d)
       \<and> webhook2 hmac secret fails now req d = (Responded 200 Received, d)"
  using assms by (simp add: webhook_def webhook2_def event_name_def)

theorem webhook_ignores_other_events_witness:
  "signature_ok prefix_key ''sk''
     (delivery prefix_key ''sk'' (charge_event ''transfer.success'' ''R1'' ''T1'' []))
   \<and> event_name (delivery prefix_key ''sk'' (charge_event ''transfer.success'' ''R1'' ''T1'' []))
        = Some (JStr ''transfer.success'')
   \<and> webhook prefix_key ''sk'' never 10
        (delivery prefix_key ''sk'' (charge_event ''transfer.success'' ''R1'' ''T1'' []))
        example_store
        = (Responded 200 Received, example_store)
   \<and> webhook2 prefix_key ''sk'' never 10
        (delivery prefix_key ''sk'' (charge_event ''transfer.success'' ''R1'' ''T1'' []))
        example_store
        = (Responded 200 Received, example_store)"
proof -
  let ?req = "delivery prefix_key ''sk'' (charge_event ''transfer.success'' ''R1'' ''T1'' [])"
  have sig: "signature_ok prefix_key ''sk'' ?req"
    by (rule signature_ok_delivery)
  have name: "event_name ?req = Some (JStr ''transfer.success'')"
    by (simp add: event_name_def delivery_def charge_event_def)
  have "event_name ?req \<noteq> Some (JStr ''charge.success'')"
    and "event_name ?req \<noteq> Some (JStr ''charge.failed'')"
    by (simp_all add: name)
  from webhook_ignores_other_events[OF sig this, of never 10 example_store] sig name
  show ?thesis by simp
qed

text \<open>
  C9. A \<^verbatim>\<open>charge.failed\<close> webhook whose signature verifies and whose reference names
  no stored payment creates no record and changes nothing (the update has no
  \<^verbatim>\<open>upsert\<close> and the branch has no code that creates a record), and is acknowledged
  with 200 \<^verbatim>\<open>{received: true}\<close>, in both versions of the route, when the store
  operation does not throw.
\<close>

theorem charge_failed_unknown_reference:
  assumes "signature_ok hmac secret req"
    and "event_name req = Some (JStr ''charge.failed'')"
    and "event_reference req = Some r"
    and "payment_of r d = None"
    and "\<not> fails UpdatePayment"
  shows "webhook hmac secret fails now req d = (Responded 200 Received, d)
       \<and> webhook2 hmac secret fails now req d = (Responded 200 Received, d)"
proof -
  have data: "\<not> nullish (event_data req)"
    using assms(3) by (rule event_reference_data)
  have ref: "js_get (event_data req) ''reference'' = Some (JStr r)"
    using assms(3) by (auto simp: event_reference_def dest: as_string_Some)
  have "charge_failed_try fails now (Some (JStr r)) d = (None, d)"
    using assms(4,5) by (simp add: charge_failed_try_def payment_of_def findOneAndUpdate_none)
  with assms(1,2) data ref show ?thesis
    by (simp add: webhook_def webhook2_def event_name_def event_data_def)
qed

theorem charge_failed_unknown_reference_witness:
  "signature_ok prefix_key ''sk''
     (delivery prefix_key ''sk'' (charge_event ''charge.failed'' ''R9'' ''T1'' []))
   \<and> event_reference (delivery prefix_key ''sk'' (charge_event ''charge.failed'' ''R9'' ''T1'' []))
        = Some ''R9''
   \<and> payment_of ''R9'' example_store = None
   \<and> webhook prefix_key ''sk'' never 10
        (delivery prefix_key ''sk'' (charge_event ''charge.failed'' ''R9'' ''T1'' [])) example_store
        = (Responded 200 Received, example_store)
   \<and> webhook2 prefix_key ''sk'' never 10
        (delivery prefix_key ''sk'' (charge_event ''charge.failed'' ''R9'' ''T1'' [])) example_store
        = (Responded 200 Received, example_store)"
proof -
  let ?req = "delivery prefix_key ''sk'' (charge_event ''charge.failed'' ''R9'' ''T1'' [])"
  have sig: "signature_ok prefix_key ''sk'' ?req"
    by (rule signature_ok_delivery)
  have name: "event_name ?req = Some (JStr ''charge.failed'')"
    by (simp add: event_name_def delivery_def charge_event_def)
  have ref: "event_reference ?req = Some ''R9''"
    by (simp add: event_reference_def event_data_def delivery_def charge_event_def)
  have none: "payment_of ''R9'' example_store = None"
    by (simp add: payment_of_def example_store_def pending_payment_def has_reference_def)
  have nofail: "\<not> never UpdatePayment"
    by (simp add: never_def)
  from charge_failed_unknown_reference
         [where fails = never and now = 10, OF sig name ref none nofail] sig ref none
  show ?thesis by simp
qed

section \<open>What a trigger does to a stored payment\<close>

lemma charge_failed_try_stored:
  assumes "payment_of r d = Some p" and "\<not> fails UpdatePayment"
  shows "\<exists>d'. charge_failed_try fails now (Some (JStr r)) d = (None, d')
           \<and> payment_of r d' = Some (set_failed now p) \<and> students d' = students d"
proof -
  obtain d1 where "Payment_findOneAndUpdate fails (Some r) (set_failed now) d = Inr (Some (set_failed now p), d1)"
    "payment_of r d1 = Some (set_failed now p)" "students d1 = students d"
    using findOneAndUpdate_some[of r d p fails "set_failed now"] assms by auto
  then show ?thesis by (simp add: charge_failed_try_def)
qed

lemma charge_success_try_stored:
  assumes "payment_of r d = Some p" and "\<not> fails UpdatePayment"
    and "charge_success_try fails now pd (Some (JStr r)) sid sem year d = (e, d')"
  shows "payment_of r d' = Some (set_success (as_string (js_get pd ''paid_at'')) now p)"
proof -
  let ?u = "set_success (as_string (js_get pd ''paid_at'')) now"
  obtain d1 where d1: "Payment_findOneAndUpdate fails (Some r) ?u d = Inr (Some (?u p), d1)"
    "payment_of r d1 = Some (?u p)"
    using findOneAndUpdate_some[of r d p fails ?u] assms(1,2) by auto
  show ?thesis
    using d1 assms(3) by (auto simp: charge_success_try_def payment_of_def
        dest: Student_findByIdAndUpdate_payments split: sum.splits)
qed

lemma snd_verify_payment:
  "protect req
     \<Longrightarrow> snd (verify_payment fails now gw req d) = snd (verify_try fails now gw (params_reference req) d)"
  by (simp add: verify_payment_def split: prod.splits sum.splits)

lemma verify_payment_stored:
  assumes "protect req"
    and "js_get (provider_data gw) ''status'' = Some (JStr ''success'')"
    and "\<not> nullish (js_get (provider_data gw) ''metadata'')"
    and "payment_of (params_reference req) d = Some p"
    and "\<not> fails UpdatePayment"
  shows "payment_of (params_reference req) (snd (verify_payment fails now gw req d))
           = Some (set_success (as_string (js_get (provider_data gw) ''paid_at'')) now p)"
proof -
  let ?r = "params_reference req"
  let ?u = "set_success (as_string (js_get (provider_data gw) ''paid_at'')) now"
  obtain data where gw: "gw = Gateway_returned data" "\<not> nullish data"
    "js_get data ''data'' = provider_data gw" "truthy (provider_data gw)"
    using assms(2) provider_data_Some[of gw "''status''"] by auto
  obtain d1 where d1: "Payment_findOneAndUpdate fails (Some ?r) ?u d = Inr (Some (?u p), d1)"
    "payment_of ?r d1 = Some (?u p)"
    using findOneAndUpdate_some[of ?r d p fails ?u] assms(4,5) by auto
  have "payment_of ?r (snd (verify_try fails now gw ?r d)) = Some (?u p)"
    using assms(2,3) gw d1
    by (auto simp: verify_try_def payment_of_def Let_def dest: Student_findByIdAndUpdate_payments
        split: sum.splits)
  then show ?thesis
    using assms(1) by (simp add: snd_verify_payment)
qed

text \<open>
  C1, as the routes have it. The filter of \<^verbatim>\<open>findOneAndUpdate\<close> names the reference
  and not the status, so a trigger overwrites a stored payment whatever its status is:
  a \<^verbatim>\<open>charge.failed\<close> webhook sets the status to \<^verbatim>\<open>failed\<close> and keeps
  \<open>paidAt\<close>; a \<^verbatim>\<open>charge.success\<close> webhook, and a verification that the gateway
  answers with \<^verbatim>\<open>success\<close>, set the status to \<^verbatim>\<open>success\<close> and \<open>paidAt\<close> to
  the \<^verbatim>\<open>paid_at\<close> they report; all three rewrite \<open>updatedAt\<close>. The status and
  \<open>paidAt\<close> of a terminal payment therefore stay as they are only under a trigger
  that reports the same status and, for a success, the same \<^verbatim>\<open>paid_at\<close>.
\<close>

theorem trigger_overwrites_status:
  assumes "payment_of r d = Some p"
    and "\<not> fails UpdatePayment"
  shows "(signature_ok hmac secret req \<and> event_reference req = Some r
            \<and> event_name req = Some (JStr ''charge.failed'') \<longrightarrow>
            payment_of r (snd (webhook hmac secret fails now req d))
              = Some (p\<lparr>status := ''failed'', updatedAt := now\<rparr>))
       \<and> (signature_ok hmac secret req \<and> event_reference req = Some r
            \<and> event_name req = Some (JStr ''charge.success'')
            \<and> \<not> nullish (event_metadata req) \<and> event_paid_at req = Some paid \<longrightarrow>
            payment_of r (snd (webhook hmac secret fails now req d))
              = Some (p\<lparr>status := ''success'', paidAt := Some paid, updatedAt := now\<rparr>))
       \<and> (protect vreq \<and> params_reference vreq = r
            \<and> js_get (provider_data gw) ''status'' = Some (JStr ''success'')
            \<and> \<not> nullish (js_get (provider_data gw) ''metadata'')
            \<and> as_string (js_get (provider_data gw) ''paid_at'') = Some vpaid \<longrightarrow>
            payment_of r (snd (verify_payment fails now gw vreq d))
              = Some (p\<lparr>status := ''success'', paidAt := Some vpaid, updatedAt := now\<rparr>))"
proof -
  have failed: "payment_of r (snd (webhook hmac secret fails now req d)) = Some (set_failed now p)"
    if "signature_ok hmac secret req" "event_reference req = Some r"
      "event_name req = Some (JStr ''charge.failed'')"
  proof -
    have data: "\<not> nullish (event_data req)"
      using that(2) by (rule event_reference_data)
    have ref: "js_get (event_data req) ''reference'' = Some (JStr r)"
      using that(2) by (auto simp: event_reference_def dest: as_string_Some)
    obtain d' where "charge_failed_try fails now (Some (JStr r)) d = (None, d')"
      "payment_of r d' = Some (set_failed now p)"
      using charge_failed_try_stored[of r d p fails now] assms by blast
    with that data ref show ?thesis
      by (simp add: webhook_def event_name_def event_data_def)
  qed
  have success: "payment_of r (snd (webhook hmac secret fails now req d))
                   = Some (set_success (event_paid_at req) now p)"
    if "signature_ok hmac secret req" "event_reference req = Some r"
      "event_name req = Some (JStr ''charge.success'')" "\<not> nullish (event_metadata req)"
  proof -
    have data: "\<not> nullish (event_data req)"
      using that(2) by (rule event_reference_data)
    have ref: "js_get (event_data req) ''reference'' = Some (JStr r)"
      using that(2) by (auto simp: event_reference_def dest: as_string_Some)
    show ?thesis
      using that data ref
      by (auto simp: webhook_def event_name_def event_data_def event_metadata_def
          event_paid_at_def Let_def split: prod.splits option.splits
          dest: charge_success_try_stored[OF assms(1), of fails, OF assms(2)])
  qed
  have verified: "payment_of r (snd (verify_payment fails now gw vreq d))
                    = Some (set_success (as_string (js_get (provider_data gw) ''paid_at'')) now p)"
    if "protect vreq" "params_reference vreq = r"
      "js_get (provider_data gw) ''status'' = Some (JStr ''success'')"
      "\<not> nullish (js_get (provider_data gw) ''metadata'')"
    using verify_payment_stored[of vreq gw d p fails now] that assms by simp
  show ?thesis
    using failed success verified by (auto simp: set_failed_def set_success_def)
qed

theorem trigger_overwrites_status_witness:
  "payment_of ''R1'' example_store = Some (pending_payment 1 ''R1'' ''S1'' ''Fall'')
   \<and> payment_of ''R1''
        (snd (webhook prefix_key ''sk'' never 20
                (delivery prefix_key ''sk'' (charge_event ''charge.failed'' ''R1'' ''T2'' []))
                example_store))
        = Some ((pending_payment 1 ''R1'' ''S1'' ''Fall'')\<lparr>status := ''failed'', updatedAt := 20\<rparr>)
   \<and> payment_of ''R1'' (snd (webhook prefix_key ''sk'' never 10 fall_success example_store))
        = Some ((pending_payment 1 ''R1'' ''S1'' ''Fall'')
                  \<lparr>status := ''success'', paidAt := Some ''T1'', updatedAt := 10\<rparr>)
   \<and> payment_of ''R1''
        (snd (verify_payment never 30
                (charge_answer ''success'' ''T9'' (term_metadata ''S1'' ''Fall'' ''2025/2026''))
                (client_request ''R1'' (JObj [])) example_store))
        = Some ((pending_payment 1 ''R1'' ''S1'' ''Fall'')
                  \<lparr>status := ''success'', paidAt := Some ''T9'', updatedAt := 30\<rparr>)"
proof -
  let ?f = "delivery prefix_key ''sk'' (charge_event ''charge.failed'' ''R1'' ''T2'' [])"
  let ?v = "client_request ''R1'' (JObj [])"
  let ?ok = "charge_answer ''success'' ''T9'' (term_metadata ''S1'' ''Fall'' ''2025/2026'')"
  have stored: "payment_of ''R1'' example_store = Some (pending_payment 1 ''R1'' ''S1'' ''Fall'')"
    by (simp add: payment_of_def example_store_def pending_payment_def has_reference_def)
  have nofail: "\<not> never UpdatePayment"
    by (simp add: never_def)
  have f: "signature_ok prefix_key ''sk'' ?f" "event_reference ?f = Some ''R1''"
    "event_name ?f = Some (JStr ''charge.failed'')"
    by (simp_all add: signature_ok_delivery) (simp_all add: reading_defs delivery_def charge_event_def)
  have s: "signature_ok prefix_key ''sk'' fall_success" "event_reference fall_success = Some ''R1''"
    "event_name fall_success = Some (JStr ''charge.success'')"
    "\<not> nullish (event_metadata fall_success)" "event_paid_at fall_success = Some ''T1''"
    by (simp_all add: fall_success_def signature_ok_delivery)
       (simp_all add: reading_defs delivery_def charge_event_def)
  have v: "protect ?v" "params_reference ?v = ''R1''"
    "js_get (provider_data ?ok) ''status'' = Some (JStr ''success'')"
    "\<not> nullish (js_get (provider_data ?ok) ''metadata'')"
    "as_string (js_get (provider_data ?ok) ''paid_at'') = Some ''T9''"
    by (simp_all add: protect_def client_request_def provider_data_def charge_answer_def nullish_def)
  note t = trigger_overwrites_status[where fails = never and hmac = prefix_key and secret = "''sk''",
      OF stored nofail]
  show ?thesis
    using t[where req = ?f and now = 20] t[where req = fall_success and now = 10]
      t[where vreq = ?v and gw = ?ok and now = 30] stored f s v
    by simp
qed

text \<open>
  The claim as the specification states it fails: a payment that \<^verbatim>\<open>charge.success\<close>
  made successful is turned to \<^verbatim>\<open>failed\<close> by a later \<^verbatim>\<open>charge.failed\<close>; a
  second \<^verbatim>\<open>charge.success\<close> with another \<^verbatim>\<open>paid_at\<close> replaces its \<open>paidAt\<close>;
  and a payment that \<^verbatim>\<open>charge.failed\<close> made failed is turned to
  \<^verbatim>\<open>success\<close> by a later verification.
\<close>

theorem terminal_status_counterexample:
  "map_option status (payment_of ''R1''
      (snd (webhook prefix_key ''sk'' never 10 fall_success example_store))) = Some ''success''
   \<and> map_option status (payment_of ''R1''
      (snd (webhook prefix_key ''sk'' never 20
              (delivery prefix_key ''sk'' (charge_event ''charge.failed'' ''R1'' ''T2'' []))
              (snd (webhook prefix_key ''sk'' never 10 fall_success example_store)))))
     = Some ''failed''
   \<and> map_option paidAt (payment_of ''R1''
      (snd (webhook prefix_key ''sk'' never 10 fall_success example_store))) = Some (Some ''T1'')
   \<and> map_option paidAt (payment_of ''R1''
      (snd (webhook prefix_key ''sk'' never 30
              (delivery prefix_key ''sk''
                 (charge_event ''charge.success'' ''R1'' ''T3'' (term_metadata ''S1'' ''Fall'' ''2025/2026'')))
              (snd (webhook prefix_key ''sk'' never 10 fall_success example_store)))))
     = Some (Some ''T3'')
   \<and> map_option status (payment_of ''R1''
      (snd (webhook prefix_key ''sk'' never 20
              (delivery prefix_key ''sk'' (charge_event ''charge.failed'' ''R1'' ''T2'' []))
              example_store))) = Some ''failed''
   \<and> map_option status (payment_of ''R1''
      (snd (verify_payment never 30
              (charge_answer ''success'' ''T9'' (term_metadata ''S1'' ''Fall'' ''2025/2026''))
              (client_request ''R1'' (JObj []))
              (snd (webhook prefix_key ''sk'' never 20
                      (delivery prefix_key ''sk'' (charge_event ''charge.failed'' ''R1'' ''T2'' []))
                      example_store))))) = Some ''success''"
  by (simp add: fixture_defs reading_defs handler_defs fall_success_def verify_payment_def
      verify_try_def client_defs)

section \<open>Repeated triggers and the student's payment history\<close>

lemma webhook_success_stored:
  assumes sig: "signature_ok hmac secret req"
    and name: "event_name req = Some (JStr ''charge.success'')"
    and meta: "\<not> nullish (event_metadata req)"
    and ref: "event_reference req = Some r"
    and stored: "payment_of r d = Some p"
    and sid: "metadata_string req ''student_id'' = Some i"
    and st: "student_of i d = Some s"
    and nofail: "\<not> fails UpdatePayment" "\<not> fails UpdateStudent"
  shows "\<exists>d'. webhook hmac secret fails now req d = (Responded 200 Received, d')
           \<and> payment_of r d' = Some (set_success (event_paid_at req) now p)
           \<and> student_of i d'
               = Some (set_paid (metadata_string req ''semester'')
                                (metadata_string req ''academic_year'') (Some (p_id p)) s)"
proof -
  let ?u = "set_success (event_paid_at req) now"
  let ?v = "set_paid (metadata_string req ''semester'') (metadata_string req ''academic_year'')
              (Some (p_id p))"
  have data: "\<not> nullish (event_data req)"
    using ref by (rule event_reference_data)
  have ref': "js_get (event_data req) ''reference'' = Some (JStr r)"
    using ref by (auto simp: event_reference_def dest: as_string_Some)
  obtain d1 where d1: "Payment_findOneAndUpdate fails (Some r) ?u d = Inr (Some (?u p), d1)"
    "payment_of r d1 = Some (?u p)" "students d1 = students d"
    using findOneAndUpdate_some[of r d p fails ?u] stored nofail(1) by auto
  have "student_of i d1 = Some s"
    using st d1(3) by (simp add: student_of_def)
  then obtain d2 where d2: "Student_findByIdAndUpdate fails (Some i) ?v d1 = Inr d2"
    "student_of i d2 = Some (?v s)" "payments d2 = payments d1"
    using Student_findByIdAndUpdate_some[of i d1 s fails ?v] nofail(2) by auto
  have pid: "p_id (?u p) = p_id p"
    by (simp add: set_success_def)
  have "charge_success_try fails now (event_data req) (Some (JStr r))
          (js_get (event_metadata req) ''student_id'') (js_get (event_metadata req) ''semester'')
          (js_get (event_metadata req) ''academic_year'') d = (None, d2)"
    using d1(1) d2(1) sid pid
    by (simp add: charge_success_try_def event_paid_at_def metadata_string_def)
  then have "webhook hmac secret fails now req d = (Responded 200 Received, d2)"
    using sig name meta data ref'
    by (simp add: webhook_def event_name_def event_data_def event_metadata_def)
  moreover have "payment_of r d2 = Some (?u p)"
    using d1(2) d2(3) by (simp add: payment_of_def)
  ultimately show ?thesis
    using d2(2) by simp
qed

lemma verify_success_stored:
  assumes auth: "protect req"
    and status: "js_get (provider_data gw) ''status'' = Some (JStr ''success'')"
    and meta: "\<not> nullish (js_get (provider_data gw) ''metadata'')"
    and stored: "payment_of (params_reference req) d = Some p"
    and sid: "as_string (js_get (js_get (provider_data gw) ''metadata'') ''student_id'') = Some i"
    and st: "student_of i d = Some s"
    and nofail: "\<not> fails UpdatePayment" "\<not> fails UpdateStudent"
  shows "\<exists>d'. verify_payment fails now gw req d
                 = (Responded 200
                      (Verified (Some (set_success (as_string (js_get (provider_data gw) ''paid_at''))
                                         now p))), d')
           \<and> payment_of (params_reference req) d'
               = Some (set_success (as_string (js_get (provider_data gw) ''paid_at'')) now p)
           \<and> student_of i d'
               = Some (set_paid
                        (as_string (js_get (js_get (provider_data gw) ''metadata'') ''semester''))
                        (as_string (js_get (js_get (provider_data gw) ''metadata'') ''academic_year''))
                        (Some (p_id p)) s)"
proof -
  let ?r = "params_reference req"
  let ?md = "js_get (provider_data gw) ''metadata''"
  let ?u = "set_success (as_string (js_get (provider_data gw) ''paid_at'')) now"
  let ?v = "set_paid (as_string (js_get ?md ''semester'')) (as_string (js_get ?md ''academic_year''))
              (Some (p_id p))"
  obtain data where gw: "gw = Gateway_returned data" "\<not> nullish data"
    "js_get data ''data'' = provider_data gw" "truthy (provider_data gw)"
    using status provider_data_Some[of gw "''status''"] by auto
  obtain d1 where d1: "Payment_findOneAndUpdate fails (Some ?r) ?u d = Inr (Some (?u p), d1)"
    "payment_of ?r d1 = Some (?u p)" "students d1 = students d"
    using findOneAndUpdate_some[of ?r d p fails ?u] stored nofail(1) by auto
  have "student_of i d1 = Some s"
    using st d1(3) by (simp add: student_of_def)
  then obtain d2 where d2: "Student_findByIdAndUpdate fails (Some i) ?v d1 = Inr d2"
    "student_of i d2 = Some (?v s)" "payments d2 = payments d1"
    using Student_findByIdAndUpdate_some[of i d1 s fails ?v] nofail(2) by auto
  have pid: "p_id (?u p) = p_id p"
    by (simp add: set_success_def)
  have "verify_try fails now gw ?r d = (Inr (Responded 200 (Verified (Some (?u p)))), d2)"
    using gw status meta sid d1(1) d2(1) pid by (simp add: verify_try_def Let_def)
  then have "verify_payment fails now gw req d = (Responded 200 (Verified (Some (?u p))), d2)"
    using auth by (simp add: verify_payment_def)
  moreover have "payment_of ?r d2 = Some (?u p)"
    using d1(2) d2(3) by (simp add: payment_of_def)
  ultimately show ?thesis
    using d2(2) by simp
qed

lemma success_trigger_stored:
  assumes "success_trigger hmac secret r i t"
    and "payment_of r d = Some p" and "student_of i d = Some s"
    and "\<not> fails UpdatePayment" and "\<not> fails UpdateStudent"
  shows "\<exists>p'. payment_of r (apply_trigger hmac secret fails t d) = Some p'
           \<and> p_id p' = p_id p \<and> status p' = ''success''"
    and "student_of i (apply_trigger hmac secret fails t d)
           = Some (set_paid (trigger_metadata t ''semester'') (trigger_metadata t ''academic_year'')
                     (Some (p_id p)) s)"
proof -
  have "(\<exists>p'. payment_of r (apply_trigger hmac secret fails t d) = Some p'
           \<and> p_id p' = p_id p \<and> status p' = ''success'')
        \<and> student_of i (apply_trigger hmac secret fails t d)
           = Some (set_paid (trigger_metadata t ''semester'') (trigger_metadata t ''academic_year'')
                     (Some (p_id p)) s)"
  proof (cases t)
    case (Webhook_delivery now req)
    then have t: "signature_ok hmac secret req" "event_name req = Some (JStr ''charge.success'')"
      "event_reference req = Some r" "\<not> nullish (event_metadata req)"
      "metadata_string req ''student_id'' = Some i"
      using assms(1)
      by (simp_all add: success_trigger_def trigger_charge_def trigger_metadata_def
          event_metadata_def metadata_string_def)
    from webhook_success_stored[OF t(1,2,4,3) assms(2) t(5) assms(3,4,5), of now]
    show ?thesis
      using Webhook_delivery
      by (auto simp: apply_trigger_def trigger_metadata_def trigger_charge_def metadata_string_def
          event_metadata_def set_success_def)
  next
    case (Client_verify now gw req)
    then have t: "protect req" "params_reference req = r"
      "js_get (provider_data gw) ''status'' = Some (JStr ''success'')"
      "\<not> nullish (js_get (provider_data gw) ''metadata'')"
      "as_string (js_get (js_get (provider_data gw) ''metadata'') ''student_id'') = Some i"
      using assms(1)
      by (simp_all add: success_trigger_def trigger_charge_def trigger_metadata_def)
    have stored: "payment_of (params_reference req) d = Some p"
      using assms(2) t(2) by simp
    from verify_success_stored[OF t(1,3,4) stored t(5) assms(3,4,5), of now]
    show ?thesis
      using Client_verify t(2)
      by (auto simp: apply_trigger_def trigger_metadata_def trigger_charge_def set_success_def)
  qed
  then show "\<exists>p'. payment_of r (apply_trigger hmac secret fails t d) = Some p'
           \<and> p_id p' = p_id p \<and> status p' = ''success''"
    and "student_of i (apply_trigger hmac secret fails t d)
           = Some (set_paid (trigger_metadata t ''semester'') (trigger_metadata t ''academic_year'')
                     (Some (p_id p)) s)"
    by simp_all
qed

lemma run_triggers_Cons:
  "run_triggers hmac secret fails (t # ts) d
     = run_triggers hmac secret fails ts (apply_trigger hmac secret fails t d)"
  by (simp add: run_triggers_def)

lemma run_triggers_stored:
  assumes "\<not> fails UpdatePayment" and "\<not> fails UpdateStudent"
  shows "\<forall>t\<in>set ts. success_trigger hmac secret r i t \<Longrightarrow> payment_of r d = Some p
          \<Longrightarrow> student_of i d = Some s
          \<Longrightarrow> distinct (paymentHistory s) \<Longrightarrow> Some (p_id p) \<in> set (paymentHistory s)
          \<Longrightarrow> \<exists>p' s'. payment_of r (run_triggers hmac secret fails ts d) = Some p'
                 \<and> p_id p' = p_id p
                 \<and> student_of i (run_triggers hmac secret fails ts d) = Some s'
                 \<and> distinct (paymentHistory s') \<and> Some (p_id p) \<in> set (paymentHistory s')"
proof (induction ts arbitrary: d p s)
  case Nil
  then show ?case by (simp add: run_triggers_def)
next
  case (Cons t ts)
  let ?d = "apply_trigger hmac secret fails t d"
  let ?s = "set_paid (trigger_metadata t ''semester'') (trigger_metadata t ''academic_year'')
              (Some (p_id p)) s"
  have t: "success_trigger hmac secret r i t"
    using Cons.prems(1) by simp
  obtain p' where p': "payment_of r ?d = Some p'" "p_id p' = p_id p"
    using success_trigger_stored(1)[OF t Cons.prems(2,3) assms] by blast
  have s': "student_of i ?d = Some ?s"
    using success_trigger_stored(2)[OF t Cons.prems(2,3) assms] .
  have "distinct (paymentHistory ?s)" "Some (p_id p') \<in> set (paymentHistory ?s)"
    using Cons.prems(4) p'(2) by (simp_all add: set_paid_def addToSet_def)
  moreover have "\<forall>t\<in>set ts. success_trigger hmac secret r i t"
    using Cons.prems(1) by simp
  ultimately show ?case
    using Cons.IH[OF _ p'(1) s'] p'(2) by (simp add: run_triggers_Cons)
qed

text \<open>
  C3, as the routes have it. Every trigger that reports success and finds the stored
  payment (a \<^verbatim>\<open>charge.success\<close> delivery, or a verification the gateway answers
  with \<^verbatim>\<open>success\<close>) applies the student update again, whether or not the payment
  was successful already: the status becomes \<^verbatim>\<open>paid\<close>, the last paid semester and
  year become those of the trigger's metadata, and the payment id is added with
  \<^verbatim>\<open>$addToSet\<close>. Since the id is added as to a set, after any sequence of such
  triggers for the same reference (at least one) the student's history holds the id
  exactly once.
\<close>

theorem success_triggers_history:
  assumes "\<forall>t\<in>set (t # ts). success_trigger hmac secret r i t"
    and "payment_of r d = Some p"
    and "student_of i d = Some s"
    and "distinct (paymentHistory s)"
    and "\<not> fails UpdatePayment" and "\<not> fails UpdateStudent"
  shows "map_option (\<lambda>s'. count_list (paymentHistory s') (Some (p_id p)))
           (student_of i (run_triggers hmac secret fails (t # ts) d)) = Some 1
       \<and> student_of i (apply_trigger hmac secret fails t d)
           = Some (s\<lparr>currentSemesterPaymentStatus := ''paid'',
                     lastPaidSemester := trigger_metadata t ''semester'',
                     lastPaidAcademicYear := trigger_metadata t ''academic_year'',
                     paymentHistory := addToSet (Some (p_id p)) (paymentHistory s)\<rparr>)"
proof -
  let ?d = "apply_trigger hmac secret fails t d"
  let ?s = "set_paid (trigger_metadata t ''semester'') (trigger_metadata t ''academic_year'')
              (Some (p_id p)) s"
  have t: "success_trigger hmac secret r i t" and ts: "\<forall>t\<in>set ts. success_trigger hmac secret r i t"
    using assms(1) by simp_all
  obtain p' where p': "payment_of r ?d = Some p'" "p_id p' = p_id p"
    using success_trigger_stored(1)[OF t assms(2,3,5,6)] by blast
  have s': "student_of i ?d = Some ?s"
    using success_trigger_stored(2)[OF t assms(2,3,5,6)] .
  have "distinct (paymentHistory ?s)" "Some (p_id p') \<in> set (paymentHistory ?s)"
    using assms(4) p'(2) by (simp_all add: set_paid_def addToSet_def)
  from run_triggers_stored[OF assms(5,6) ts p'(1) s' this]
  obtain s'' where "student_of i (run_triggers hmac secret fails ts ?d) = Some s''"
    "distinct (paymentHistory s'')" "Some (p_id p) \<in> set (paymentHistory s'')"
    using p'(2) by auto
  then have "map_option (\<lambda>s'. count_list (paymentHistory s') (Some (p_id p)))
              (student_of i (run_triggers hmac secret fails (t # ts) d)) = Some 1"
    by (simp add: run_triggers_Cons count_list_distinct)
  then show ?thesis
    using s' by (simp add: set_paid_def)
qed

theorem success_triggers_history_witness:
  "payment_of ''R1'' example_store = Some (pending_payment 1 ''R1'' ''S1'' ''Fall'')
   \<and> student_of ''S1'' example_store = Some (unpaid_student ''S1'')
   \<and> success_trigger prefix_key ''sk'' ''R1'' ''S1'' (Webhook_delivery 10 fall_success)
   \<and> success_trigger prefix_key ''sk'' ''R1'' ''S1''
        (Client_verify 20 (charge_answer ''success'' ''T9'' (term_metadata ''S1'' ''Fall'' ''2025/2026''))
           (client_request ''R1'' (JObj [])))
   \<and> map_option (\<lambda>s'. count_list (paymentHistory s') (Some 1))
        (student_of ''S1''
           (run_triggers prefix_key ''sk'' never
              [Webhook_delivery 10 fall_success,
               Client_verify 20
                 (charge_answer ''success'' ''T9'' (term_metadata ''S1'' ''Fall'' ''2025/2026''))
                 (client_request ''R1'' (JObj [])),
               Webhook_delivery 30 fall_success]
              example_store))
      = Some 1
   \<and> student_of ''S1''
        (apply_trigger prefix_key ''sk'' never (Webhook_delivery 10 fall_success) example_store)
      = Some \<lparr>s_id = ''S1'', currentSemesterPaymentStatus = ''paid'', lastPaidSemester = Some ''Fall'',
              lastPaidAcademicYear = Some ''2025/2026'', paymentHistory = [Some 1]\<rparr>"
proof -
  let ?w = "\<lambda>now. Webhook_delivery now fall_success"
  let ?v = "Client_verify 20
              (charge_answer ''success'' ''T9'' (term_metadata ''S1'' ''Fall'' ''2025/2026''))
              (client_request ''R1'' (JObj []))"
  have w: "success_trigger prefix_key ''sk'' ''R1'' ''S1'' (?w now)" for now
    by (simp add: success_trigger_def trigger_charge_def trigger_metadata_def fall_success_def
        signature_ok_delivery)
       (simp add: reading_defs delivery_def charge_event_def term_metadata_def)
  have v: "success_trigger prefix_key ''sk'' ''R1'' ''S1'' ?v"
    by (simp add: success_trigger_def trigger_charge_def trigger_metadata_def protect_def
        client_request_def provider_data_def charge_answer_def term_metadata_def nullish_def)
  have md: "trigger_metadata (?w 10) ''semester'' = Some ''Fall''"
    "trigger_metadata (?w 10) ''academic_year'' = Some ''2025/2026''"
    by (simp_all add: trigger_metadata_def trigger_charge_def fall_success_def event_data_def
        delivery_def charge_event_def term_metadata_def)
  have stored: "payment_of ''R1'' example_store = Some (pending_payment 1 ''R1'' ''S1'' ''Fall'')"
    by (simp add: payment_of_def example_store_def pending_payment_def has_reference_def)
  have st: "student_of ''S1'' example_store = Some (unpaid_student ''S1'')"
    by (simp add: student_of_def example_store_def unpaid_student_def has_id_def)
  have dist: "distinct (paymentHistory (unpaid_student ''S1''))"
    by (simp add: unpaid_student_def)
  have nofail: "\<not> never UpdatePayment" "\<not> never UpdateStudent"
    by (simp_all add: never_def)
  have all: "\<forall>t\<in>set (?w 10 # [?v, ?w 30]). success_trigger prefix_key ''sk'' ''R1'' ''S1'' t"
    using w v by simp
  from success_triggers_history[where fails = never, OF all stored st dist nofail]
       stored st w[of 10] v md
  show ?thesis by (simp add: pending_payment_def unpaid_student_def addToSet_def)
qed

text \<open>
  The claim as the specification states it fails: the update is not confined to the
  trigger that changed the payment. After the Fall payment and then the Spring payment
  of a student succeeded, a second delivery of the Fall event, which finds its payment
  successful already, sets the student's last paid semester back to Fall.
\<close>

theorem duplicate_success_counterexample:
  "map_option status (payment_of ''R1''
      (snd (webhook prefix_key ''sk'' never 20 spring_success
             (snd (webhook prefix_key ''sk'' never 10 fall_success two_term_store)))))
     = Some ''success''
   \<and> map_option lastPaidSemester (student_of ''S1''
      (snd (webhook prefix_key ''sk'' never 20 spring_success
             (snd (webhook prefix_key ''sk'' never 10 fall_success two_term_store)))))
     = Some (Some ''Spring'')
   \<and> map_option lastPaidSemester (student_of ''S1''
      (snd (webhook prefix_key ''sk'' never 30 fall_success
             (snd (webhook prefix_key ''sk'' never 20 spring_success
                    (snd (webhook prefix_key ''sk'' never 10 fall_success two_term_store)))))))
     = Some (Some ''Fall'')"
  by (simp add: fixture_defs reading_defs handler_defs fall_success_def spring_success_def
      two_term_store_def)

section \<open>A successful charge for a reference with no stored payment\<close>

text \<open>
  C5, on the named route. The specification has the webhook create the payment, in the
  state \<^verbatim>\<open>success\<close>, from the metadata of the event, and update the student. The
  branch that does so in \<^verbatim>\<open>Routes/PaymentRoute.js\<close> evaluates
  \<^verbatim>\<open>metadata.description || `Fee payment for ${semester} ${academicYear}`\<close>, and
  \<^verbatim>\<open>academicYear\<close> is not declared in the handler: for an event whose metadata
  has no description the ReferenceError reaches the \<^verbatim>\<open>catch\<close>, the answer is 500,
  and neither a payment is created nor a student updated.
\<close>

theorem webhook_reconstruction_throws:
  assumes "signature_ok hmac secret req"
    and "event_name req = Some (JStr ''charge.success'')"
    and "event_reference req = Some r"
    and "payment_of r d = None"
    and "\<not> nullish (event_metadata req)"
    and "\<not> truthy (js_get (event_metadata req) ''description'')"
    and "\<not> fails UpdatePayment"
  shows "webhook hmac secret fails now req d
           = (Responded 500 (Received_message ''Database update failed''), d)"
proof -
  have data: "\<not> nullish (event_data req)"
    using assms(3) by (rule event_reference_data)
  have ref: "js_get (event_data req) ''reference'' = Some (JStr r)"
    using assms(3) by (auto simp: event_reference_def dest: as_string_Some)
  have "charge_success_try fails now (event_data req) (Some (JStr r))
          (js_get (event_metadata req) ''student_id'') (js_get (event_metadata req) ''semester'')
          (js_get (event_metadata req) ''academic_year'') d = (Some ReferenceError, d)"
    using assms(4,6,7)
    by (simp add: charge_success_try_def event_metadata_def payment_of_def findOneAndUpdate_none)
  with assms(1,2,5) data ref show ?thesis
    by (simp add: webhook_def event_name_def event_data_def event_metadata_def)
qed

theorem webhook_reconstruction_throws_witness:
  "signature_ok prefix_key ''sk''
     (delivery prefix_key ''sk''
        (charge_event ''charge.success'' ''R9'' ''T1'' (term_metadata ''S1'' ''Fall'' ''2025/2026'')))
   \<and> payment_of ''R9'' example_store = None
   \<and> student_of ''S1'' example_store = Some (unpaid_student ''S1'')
   \<and> webhook prefix_key ''sk'' never 10
        (delivery prefix_key ''sk''
           (charge_event ''charge.success'' ''R9'' ''T1'' (term_metadata ''S1'' ''Fall'' ''2025/2026'')))
        example_store
      = (Responded 500 (Received_message ''Database update failed''), example_store)"
proof -
  let ?req = "delivery prefix_key ''sk''
                (charge_event ''charge.success'' ''R9'' ''T1'' (term_metadata ''S1'' ''Fall'' ''2025/2026''))"
  have ev: "event_name ?req = Some (JStr ''charge.success'')"
    "event_reference ?req = Some ''R9''" "\<not> nullish (event_metadata ?req)"
    "\<not> truthy (js_get (event_metadata ?req) ''description'')"
    by (simp_all add: reading_defs delivery_def charge_event_def term_metadata_def)
  have none: "payment_of ''R9'' example_store = None"
    by (simp add: payment_of_def example_store_def pending_payment_def has_reference_def)
  have st: "student_of ''S1'' example_store = Some (unpaid_student ''S1'')"
    by (simp add: student_of_def example_store_def unpaid_student_def has_id_def)
  have nofail: "\<not> never UpdatePayment"
    by (simp add: never_def)
  from webhook_reconstruction_throws
         [where fails = never and now = 10,
          OF signature_ok_delivery ev(1) ev(2) none ev(3) ev(4) nofail]
       signature_ok_delivery[of prefix_key "''sk''"] none st
  show ?thesis by simp
qed

lemma webhook2_reconstructs:
  assumes sig: "signature_ok hmac secret req"
    and name: "event_name req = Some (JStr ''charge.success'')"
    and ref: "event_reference req = Some r" "r \<noteq> []"
    and none: "payment_of r d = None"
    and sid: "metadata_string req ''student_id'' = Some i" "i \<noteq> []"
    and sem: "metadata_string req ''semester'' = Some sm" "sm \<noteq> []"
    and year: "metadata_string req ''academic_year'' = Some y" "y \<noteq> []"
    and amt: "as_number (js_get (event_data req) ''amount'') = Some a"
    and cur: "as_string (js_get (event_data req) ''currency'') = Some c" "c \<noteq> []"
    and st: "student_of i d = Some s"
    and nofail: "\<not> fails UpdatePayment" "\<not> fails SavePayment" "\<not> fails UpdateStudent"
  shows "\<exists>d'. webhook2 hmac secret fails now req d = (Responded 200 Received, d')
           \<and> payment_of r d'
               = Some \<lparr>p_id = new_id d, studentId = i, paystackReference = r, amount = a,
                       currency = c, status = ''success'', semester = sm, academicYear = y,
                       description = description_or (js_get (event_metadata req) ''description'')
                                       (Some (JStr sm)) (Some (JStr y)),
                       paidAt = event_paid_at req, createdAt = now, updatedAt = now\<rparr>
           \<and> student_of i d' = Some (set_paid (Some sm) (Some y) (Some (new_id d)) s)"
proof -
  let ?p = "\<lparr>p_id = new_id d, studentId = i, paystackReference = r, amount = a,
             currency = c, status = ''success'', semester = sm, academicYear = y,
             description = description_or (js_get (event_metadata req) ''description'')
                             (Some (JStr sm)) (Some (JStr y)),
             paidAt = event_paid_at req, createdAt = now, updatedAt = now\<rparr>"
  let ?d1 = "d\<lparr>payments := payments d @ [?p]\<rparr>"
  let ?v = "set_paid (Some sm) (Some y) (Some (new_id d))"
  have data: "\<not> nullish (event_data req)"
    using ref(1) by (rule event_reference_data)
  have ref': "js_get (event_data req) ''reference'' = Some (JStr r)"
    using ref(1) by (auto simp: event_reference_def dest: as_string_Some)
  have md: "js_get (event_metadata req) ''student_id'' = Some (JStr i)"
    "js_get (event_metadata req) ''semester'' = Some (JStr sm)"
    "js_get (event_metadata req) ''academic_year'' = Some (JStr y)"
    using sid(1) sem(1) year(1) by (auto simp: metadata_string_def dest: as_string_Some)
  have upd: "Payment_findOneAndUpdate fails (Some r)
               (set_success (as_string (js_get (event_data req) ''paid_at'')) now) d = Inr (None, d)"
    using none nofail(1) by (simp add: findOneAndUpdate_none payment_of_def)
  have save: "Payment_save fails now
                \<lparr>f_studentId = Some i, f_paystackReference = Some r, f_amount = Some a,
                 f_currency = Some c, f_status = ''success'', f_semester = Some sm,
                 f_academicYear = Some y,
                 f_description = description_or (js_get (event_metadata req) ''description'')
                                   (Some (JStr sm)) (Some (JStr y)),
                 f_paidAt = event_paid_at req, f_createdAt = Some now, f_updatedAt = Some now\<rparr> d
              = Inr (?p, ?d1)"
    using none nofail(2) ref(2) sid(2) sem(2) year(2) cur(2)
    by (simp add: Payment_save_def document_def payment_of_def)
  have "student_of i ?d1 = Some s"
    using st by (simp add: student_of_def)
  then obtain d2 where d2: "Student_findByIdAndUpdate fails (Some i) ?v ?d1 = Inr d2"
    "student_of i d2 = Some (?v s)" "payments d2 = payments ?d1"
    using Student_findByIdAndUpdate_some[of i ?d1 s fails ?v] nofail(3) by auto
  have "charge_success_try2 fails now (event_data req) (Some (JStr r)) (Some (JStr i))
          (Some (JStr sm)) (Some (JStr y)) (js_get (event_metadata req) ''description'') d
        = (None, d2)"
    using upd save d2(1) amt cur(1)
    by (simp add: charge_success_try2_def event_paid_at_def)
  then have "webhook2 hmac secret fails now req d = (Responded 200 Received, d2)"
    using sig name data ref' md sid(2) sem(2) year(2)
    by (simp add: webhook2_def event_name_def event_data_def event_metadata_def)
  moreover have "payment_of r d2 = Some ?p"
    using none d2(3) by (simp add: payment_of_def find_append_new has_reference_def)
  ultimately show ?thesis
    using d2(2) by simp
qed

section \<open>The client's verification\<close>

lemma verify_try_not_success:
  assumes "js_get (provider_data gw) ''status'' \<noteq> Some (JStr ''success'')"
  shows "snd (verify_try fails now gw r d) = d"
  using assms by (cases gw) (simp_all add: verify_try_def provider_data_def Let_def)

text \<open>
  C6. On \<^verbatim>\<open>GET /verify-payment/:reference\<close>, when the gateway reports the status
  \<^verbatim>\<open>success\<close> the stored payment of that reference gets the status
  \<^verbatim>\<open>success\<close> and the \<^verbatim>\<open>paid_at\<close> the gateway reports; when it reports any
  other status (or nothing) the store is left as it was, and the answer is 400 with the
  gateway's \<^verbatim>\<open>gateway_response\<close> as the detail (\<^verbatim>\<open>Unknown status\<close> without one).
\<close>

theorem verify_payment_transition:
  assumes "protect req"
  shows "(js_get (provider_data gw) ''status'' = Some (JStr ''success'')
            \<and> \<not> nullish (js_get (provider_data gw) ''metadata'')
            \<and> as_string (js_get (provider_data gw) ''paid_at'') = Some paid
            \<and> payment_of (params_reference req) d = Some p
            \<and> \<not> fails UpdatePayment \<longrightarrow>
          payment_of (params_reference req) (snd (verify_payment fails now gw req d))
            = Some (p\<lparr>status := ''success'', paidAt := Some paid, updatedAt := now\<rparr>))
       \<and> (js_get (provider_data gw) ''status'' \<noteq> Some (JStr ''success'') \<longrightarrow>
            snd (verify_payment fails now gw req d) = d)
       \<and> (js_get (provider_data gw) ''status'' \<noteq> Some (JStr ''success'')
            \<and> \<not> nullish (provider_data gw) \<longrightarrow>
            fst (verify_payment fails now gw req d)
              = Responded 400 (Message_details ''Payment verification failed.''
                  (if truthy (js_get (provider_data gw) ''gateway_response'')
                   then js_get (provider_data gw) ''gateway_response''
                   else Some (JStr ''Unknown status''))))"
proof -
  have c1: "js_get (provider_data gw) ''status'' = Some (JStr ''success'')
            \<and> \<not> nullish (js_get (provider_data gw) ''metadata'')
            \<and> as_string (js_get (provider_data gw) ''paid_at'') = Some paid
            \<and> payment_of (params_reference req) d = Some p
            \<and> \<not> fails UpdatePayment \<longrightarrow>
          payment_of (params_reference req) (snd (verify_payment fails now gw req d))
            = Some (p\<lparr>status := ''success'', paidAt := Some paid, updatedAt := now\<rparr>)"
    using verify_payment_stored[OF assms, of gw d p fails now] by (auto simp: set_success_def)
  have c2: "js_get (provider_data gw) ''status'' \<noteq> Some (JStr ''success'') \<longrightarrow>
            snd (verify_payment fails now gw req d) = d"
    using assms by (simp add: snd_verify_payment verify_try_not_success)
  have c3: "js_get (provider_data gw) ''status'' \<noteq> Some (JStr ''success'')
            \<and> \<not> nullish (provider_data gw) \<longrightarrow>
            fst (verify_payment fails now gw req d)
              = Responded 400 (Message_details ''Payment verification failed.''
                  (if truthy (js_get (provider_data gw) ''gateway_response'')
                   then js_get (provider_data gw) ''gateway_response''
                   else Some (JStr ''Unknown status'')))"
  proof (intro impI, elim conjE)
    assume a: "js_get (provider_data gw) ''status'' \<noteq> Some (JStr ''success'')"
      "\<not> nullish (provider_data gw)"
    then obtain data where gw: "gw = Gateway_returned data" "\<not> nullish data"
      "js_get data ''data'' = provider_data gw"
      using provider_data_not_nullish[of gw] by auto
    then show "fst (verify_payment fails now gw req d)
              = Responded 400 (Message_details ''Payment verification failed.''
                  (if truthy (js_get (provider_data gw) ''gateway_response'')
                   then js_get (provider_data gw) ''gateway_response''
                   else Some (JStr ''Unknown status'')))"
      using a assms by (simp add: verify_payment_def verify_try_def Let_def)
  qed
  show ?thesis
    using c1 c2 c3 by (intro conjI)
qed

theorem verify_payment_transition_witness:
  "protect (client_request ''R1'' (JObj []))
   \<and> payment_of ''R1'' example_store = Some (pending_payment 1 ''R1'' ''S1'' ''Fall'')
   \<and> payment_of ''R1''
        (snd (verify_payment never 10
                (charge_answer ''success'' ''T9'' (term_metadata ''S1'' ''Fall'' ''2025/2026''))
                (client_request ''R1'' (JObj [])) example_store))
      = Some ((pending_payment 1 ''R1'' ''S1'' ''Fall'')
                \<lparr>status := ''success'', paidAt := Some ''T9'', updatedAt := 10\<rparr>)
   \<and> snd (verify_payment never 10 (charge_answer ''pending'' ''T9'' [])
             (client_request ''R1'' (JObj [])) example_store) = example_store
   \<and> fst (verify_payment never 10 (charge_answer ''pending'' ''T9'' [])
             (client_request ''R1'' (JObj [])) example_store)
      = Responded 400 (Message_details ''Payment verification failed.'' (Some (JStr ''Gateway message'')))"
proof -
  let ?req = "client_request ''R1'' (JObj [])"
  let ?ok = "charge_answer ''success'' ''T9'' (term_metadata ''S1'' ''Fall'' ''2025/2026'')"
  let ?no = "charge_answer ''pending'' ''T9'' []"
  have auth: "protect ?req"
    by (simp add: protect_def client_request_def)
  have r: "params_reference ?req = ''R1''"
    by (simp add: client_request_def)
  have stored: "payment_of ''R1'' example_store = Some (pending_payment 1 ''R1'' ''S1'' ''Fall'')"
    by (simp add: payment_of_def example_store_def pending_payment_def has_reference_def)
  have ok: "js_get (provider_data ?ok) ''status'' = Some (JStr ''success'')"
    "\<not> nullish (js_get (provider_data ?ok) ''metadata'')"
    "as_string (js_get (provider_data ?ok) ''paid_at'') = Some ''T9''"
    by (simp_all add: provider_data_def charge_answer_def nullish_def)
  have no: "js_get (provider_data ?no) ''status'' \<noteq> Some (JStr ''success'')"
    "\<not> nullish (provider_data ?no)"
    "js_get (provider_data ?no) ''gateway_response'' = Some (JStr ''Gateway message'')"
    by (simp_all add: provider_data_def charge_answer_def nullish_def)
  have nofail: "\<not> never UpdatePayment"
    by (simp add: never_def)
  from verify_payment_transition[OF auth, where gw = ?ok and fails = never and d = example_store
         and p = "pending_payment 1 ''R1'' ''S1'' ''Fall''" and now = 10 and paid = "''T9''"]
       verify_payment_transition[OF auth, where gw = ?no and fails = never and d = example_store
         and now = 10]
       auth r stored ok no nofail
  show ?thesis by simp
qed

text \<open>
  C10. In the second version of the route, when the gateway reports
  \<^verbatim>\<open>success\<close> and no stored payment has the reference, the verification still marks
  the student paid, with the last paid semester and academic year of the gateway's
  metadata, and adds \<^verbatim>\<open>null\<close> to the student's payment history in place of a
  payment id; the answer is 200 with \<^verbatim>\<open>payment: null\<close>, and no payment is created.
\<close>

theorem verify_payment2_unknown_reference:
  assumes "protect req"
    and "js_get (provider_data gw) ''status'' = Some (JStr ''success'')"
    and "\<not> nullish (js_get (provider_data gw) ''metadata'')"
    and "payment_of (params_reference req) d = None"
    and "as_string (js_get (js_get (provider_data gw) ''metadata'') ''student_id'') = Some i"
    and "as_string (js_get (js_get (provider_data gw) ''metadata'') ''semester'') = Some sm"
    and "as_string (js_get (js_get (provider_data gw) ''metadata'') ''academic_year'') = Some y"
    and "student_of i d = Some s"
    and "\<not> fails UpdatePayment" and "\<not> fails UpdateStudent"
  shows "fst (verify_payment2 fails now gw req d) = Responded 200 (Verified None)
       \<and> payments (snd (verify_payment2 fails now gw req d)) = payments d
       \<and> student_of i (snd (verify_payment2 fails now gw req d))
           = Some (s\<lparr>currentSemesterPaymentStatus := ''paid'',
                     lastPaidSemester := Some sm,
                     lastPaidAcademicYear := Some y,
                     paymentHistory := addToSet None (paymentHistory s)\<rparr>)
       \<and> None \<in> set (addToSet None (paymentHistory s))"
proof -
  let ?r = "params_reference req"
  let ?md = "js_get (provider_data gw) ''metadata''"
  let ?v = "set_paid (as_string (js_get ?md ''semester'')) (as_string (js_get ?md ''academic_year'')) None"
  obtain data where gw: "gw = Gateway_returned data" "\<not> nullish data"
    "js_get data ''data'' = provider_data gw" "truthy (provider_data gw)"
    using assms(2) provider_data_Some[of gw "''status''"] by auto
  have upd: "Payment_findOneAndUpdate fails (Some ?r)
               (set_success (as_string (js_get (provider_data gw) ''paid_at'')) now) d = Inr (None, d)"
    using assms(4,9) by (simp add: findOneAndUpdate_none payment_of_def)
  obtain d2 where d2: "Student_findByIdAndUpdate fails (Some i) ?v d = Inr d2"
    "student_of i d2 = Some (?v s)" "payments d2 = payments d"
    using Student_findByIdAndUpdate_some[of i d s fails ?v] assms(8,10) by auto
  have "verify_try2 fails now gw ?r d = (Inr (Responded 200 (Verified None)), d2)"
    using gw assms(2,3,5) upd d2(1) by (simp add: verify_try2_def Let_def)
  then have "verify_payment2 fails now gw req d = (Responded 200 (Verified None), d2)"
    using assms(1) by (simp add: verify_payment2_def)
  then show ?thesis
    using d2(2,3) assms(6,7) by (simp add: set_paid_def addToSet_def)
qed

theorem verify_payment2_unknown_reference_witness:
  "protect (client_request ''R7'' (JObj []))
   \<and> payment_of ''R7'' example_store = None
   \<and> student_of ''S1'' example_store = Some (unpaid_student ''S1'')
   \<and> fst (verify_payment2 never 10
             (charge_answer ''success'' ''T9'' (term_metadata ''S1'' ''Fall'' ''2025/2026''))
             (client_request ''R7'' (JObj [])) example_store) = Responded 200 (Verified None)
   \<and> payments (snd (verify_payment2 never 10
             (charge_answer ''success'' ''T9'' (term_metadata ''S1'' ''Fall'' ''2025/2026''))
             (client_request ''R7'' (JObj [])) example_store)) = payments example_store
   \<and> student_of ''S1'' (snd (verify_payment2 never 10
             (charge_answer ''success'' ''T9'' (term_metadata ''S1'' ''Fall'' ''2025/2026''))
             (client_request ''R7'' (JObj [])) example_store))
      = Some \<lparr>s_id = ''S1'', currentSemesterPaymentStatus = ''paid'', lastPaidSemester = Some ''Fall'',
              lastPaidAcademicYear = Some ''2025/2026'', paymentHistory = [None]\<rparr>"
proof -
  let ?req = "client_request ''R7'' (JObj [])"
  let ?ok = "charge_answer ''success'' ''T9'' (term_metadata ''S1'' ''Fall'' ''2025/2026'')"
  have auth: "protect ?req"
    by (simp add: protect_def client_request_def)
  have r: "params_reference ?req = ''R7''"
    by (simp add: client_request_def)
  have none: "payment_of ''R7'' example_store = None"
    by (simp add: payment_of_def example_store_def pending_payment_def has_reference_def)
  have none': "payment_of (params_reference ?req) example_store = None"
    using none by (simp add: r)
  have st: "student_of ''S1'' example_store = Some (unpaid_student ''S1'')"
    by (simp add: student_of_def example_store_def unpaid_student_def has_id_def)
  have ok: "js_get (provider_data ?ok) ''status'' = Some (JStr ''success'')"
    "\<not> nullish (js_get (provider_data ?ok) ''metadata'')"
    "as_string (js_get (js_get (provider_data ?ok) ''metadata'') ''student_id'') = Some ''S1''"
    "as_string (js_get (js_get (provider_data ?ok) ''metadata'') ''semester'') = Some ''Fall''"
    "as_string (js_get (js_get (provider_data ?ok) ''metadata'') ''academic_year'') = Some ''2025/2026''"
    by (simp_all add: provider_data_def charge_answer_def term_metadata_def nullish_def)
  have nofail: "\<not> never UpdatePayment" "\<not> never UpdateStudent"
    by (simp_all add: never_def)
  from verify_payment2_unknown_reference
         [where fails = never and now = 10, OF auth ok(1) ok(2) none' ok(3) ok(4) ok(5) st nofail]
       auth none st ok
  show ?thesis by (simp add: unpaid_student_def addToSet_def)
qed

section \<open>Initiating a payment\<close>

lemma initiate_payment_checked:
  assumes "protect req" and "details_present req"
    and "\<not> amount_throws (body_field req ''amount'')"
    and "\<not> not_positive (body_field req ''amount'')"
  shows "initiate_payment fails now gw req d
           = (case initiate_try fails now gw (body_field req ''amount'') (body_field req ''studentId'')
                     (body_field req ''semester'') (body_field req ''academicYear'')
                     (body_field req ''description'') d of
                (Inl e, d') \<Rightarrow> (Responded 500 (Message_error ''Failed to initiate payment.'' e), d')
              | (Inr r, d') \<Rightarrow> (r, d'))"
  using assms by (simp add: initiate_payment_def details_present_def body_field_def Let_def)

lemma initiate_payment_positive:
  assumes "protect req" and "details_present req"
    and "body_field req ''amount'' = Some (JNum a)" and "0 < a"
  shows "initiate_payment fails now gw req d
           = (case initiate_try fails now gw (Some (JNum a)) (body_field req ''studentId'')
                     (body_field req ''semester'') (body_field req ''academicYear'')
                     (body_field req ''description'') d of
                (Inl e, d') \<Rightarrow> (Responded 500 (Message_error ''Failed to initiate payment.'' e), d')
              | (Inr r, d') \<Rightarrow> (r, d'))"
  using assms positive_amount[of a] initiate_payment_checked[of req fails now gw d] by simp

lemma initiate_payment_creates:
  assumes auth: "protect req" and present: "details_present req"
    and amt: "body_field req ''amount'' = Some (JNum a)" "0 < a" "a * 100 < 2 ^ 53"
    and sid: "body_field req ''studentId'' = Some (JStr i)" "ObjectId i = Some oid"
      "student_of oid d = Some s"
    and sem: "body_field req ''semester'' = Some (JStr sm)"
    and year: "body_field req ''academicYear'' = Some (JStr y)"
    and desc: "\<not> truthy (body_field req ''description'')
               \<or> as_string (body_field req ''description'') \<noteq> None"
    and gw: "gw = Gateway_returned data" "truthy (js_get data ''status'')"
    and ref: "js_get (js_get data ''data'') ''reference'' = Some (JStr r)" "r \<noteq> []"
    and none: "payment_of r d = None"
    and nofail: "\<not> fails FindStudent" "\<not> fails SavePayment"
  shows "initiate_payment fails now gw req d
           = (Responded 200 (Initiated (js_get (js_get data ''data'') ''authorization_url'')
                                 (js_get (js_get data ''data'') ''access_code'')
                                 (Some (JStr r)) (new_id d)),
              d\<lparr>payments := payments d @
                 [\<lparr>p_id = new_id d, studentId = oid, paystackReference = r,
                   amount = Finite (of_int (a * 100)),
                   currency = ''NGN'', status = ''pending'', semester = sm, academicYear = y,
                   description = description_or (body_field req ''description'')
                                   (Some (JStr sm)) (Some (JStr y)),
                   paidAt = None, createdAt = now, updatedAt = now\<rparr>]\<rparr>)"
proof -
  let ?p = "\<lparr>p_id = new_id d, studentId = oid, paystackReference = r,
             amount = Finite (of_int (a * 100)),
             currency = ''NGN'', status = ''pending'', semester = sm, academicYear = y,
             description = description_or (body_field req ''description'')
                             (Some (JStr sm)) (Some (JStr y)),
             paidAt = None, createdAt = now, updatedAt = now\<rparr>"
  let ?d1 = "d\<lparr>payments := payments d @ [?p]\<rparr>"
  have kobo: "Math_round (times_100 (amount_number (Some (JNum a)))) = Finite (of_int (a * 100))"
    using amt(2,3) by (rule kobo_exact)
  have sm: "sm \<noteq> []" "y \<noteq> []"
    using present sem year by (auto simp: details_present_def)
  have oid: "oid \<noteq> []"
    using sid(2) by (auto simp: ObjectId_def split: if_splits)
  have same_id: "s_id s = oid"
    using sid(3) find_holds[of "has_id (Some oid)" "students d" s]
    by (simp add: student_of_def has_id_def)
  have data: "truthy data" "\<not> nullish (js_get data ''data'')"
    using gw(2) ref(1) js_get_Some_truthy[of data "''status''"]
      js_get_Some_truthy[of "js_get data ''data''" "''reference''"]
    by (cases "js_get data ''status''"; auto)+
  have save: "Payment_save fails now
                \<lparr>f_studentId = Some oid, f_paystackReference = Some r,
                 f_amount = Some (Finite (of_int (a * 100))),
                 f_currency = Some ''NGN'', f_status = ''pending'', f_semester = Some sm,
                 f_academicYear = Some y,
                 f_description = description_or (body_field req ''description'')
                                   (Some (JStr sm)) (Some (JStr y)),
                 f_paidAt = None, f_createdAt = None, f_updatedAt = None\<rparr> d
              = Inr (?p, ?d1)"
    using none nofail ref(2) sm oid by (simp add: Payment_save_def document_def payment_of_def)
  have "initiate_try fails now gw (Some (JNum a)) (body_field req ''studentId'')
          (body_field req ''semester'') (body_field req ''academicYear'')
          (body_field req ''description'') d
        = (Inr (Responded 200 (Initiated (js_get (js_get data ''data'') ''authorization_url'')
                                 (js_get (js_get data ''data'') ''access_code'')
                                 (Some (JStr r)) (new_id d))), ?d1)"
    using sid sem year gw ref(1) nofail(1) data save same_id kobo
    by (simp add: initiate_try_def Student_findById_def castObjectId_def student_of_def
        Number_path_def Let_def)
  then show ?thesis
    using auth present amt(1,2) by (simp add: initiate_payment_positive)
qed

text \<open>
  C7, as the route has it. For a signed-in client, \<^verbatim>\<open>POST /initiate-payment\<close>
  answers 400 when a required member is missing, and 400 when the amount, read as a
  number, is zero or below. For a positive amount it answers 500 when the student id is
  a string that is no ObjectId (the lookup throws; the strings of twelve characters,
  which older drivers take, are left out), 404 when the id is an ObjectId that no student
  has, and 500 (not 502) when the call to the gateway throws; none of these touches the
  store. When the gateway answers with a reference that no stored payment has, the
  payment is saved for the student in the status \<^verbatim>\<open>pending\<close>, with the amount in
  kobo (for an amount whose hundredfold is below \<open>2 ^ 53\<close>, and a description that is a
  string or is left out), and the answer is 200 with the authorization URL, the access
  code, the reference and the id of the new payment.
\<close>

theorem initiate_payment_outcomes:
  assumes "protect req"
  shows "(\<not> details_present req \<longrightarrow>
            initiate_payment fails now gw req d
              = (Responded 400 (Message
                   ''Missing required payment details (amount, studentId, semester, academicYear, email).''), d))
       \<and> (details_present req \<and> \<not> amount_throws (body_field req ''amount'')
            \<and> not_positive (body_field req ''amount'') \<longrightarrow>
            initiate_payment fails now gw req d
              = (Responded 400 (Message ''Amount must be positive.''), d))
       \<and> (details_present req
            \<and> body_field req ''amount'' = Some (JNum a) \<and> 0 < a
            \<and> body_field req ''studentId'' = Some (JStr i) \<and> ObjectId i = None
            \<and> length i \<noteq> 12 \<longrightarrow>
            initiate_payment fails now gw req d
              = (Responded 500 (Message_error ''Failed to initiate payment.'' CastError), d))
       \<and> (details_present req
            \<and> body_field req ''amount'' = Some (JNum a) \<and> 0 < a
            \<and> body_field req ''studentId'' = Some (JStr i) \<and> ObjectId i = Some oid
            \<and> student_of oid d = None \<and> \<not> fails FindStudent \<longrightarrow>
            initiate_payment fails now gw req d
              = (Responded 404 (Message ''Student not found.''), d))
       \<and> (details_present req
            \<and> body_field req ''amount'' = Some (JNum a) \<and> 0 < a
            \<and> body_field req ''studentId'' = Some (JStr i) \<and> ObjectId i = Some oid
            \<and> student_of oid d = Some s
            \<and> \<not> fails FindStudent \<and> gw = Gateway_threw \<longrightarrow>
            initiate_payment fails now gw req d
              = (Responded 500 (Message_error ''Failed to initiate payment.'' GatewayError), d))
       \<and> (details_present req
            \<and> body_field req ''amount'' = Some (JNum a) \<and> 0 < a \<and> a * 100 < 2 ^ 53
            \<and> body_field req ''studentId'' = Some (JStr i) \<and> ObjectId i = Some oid
            \<and> student_of oid d = Some s
            \<and> body_field req ''semester'' = Some (JStr sm)
            \<and> body_field req ''academicYear'' = Some (JStr y)
            \<and> (\<not> truthy (body_field req ''description'')
                 \<or> as_string (body_field req ''description'') \<noteq> None)
            \<and> gw = Gateway_returned data \<and> truthy (js_get data ''status'')
            \<and> js_get (js_get data ''data'') ''reference'' = Some (JStr r) \<and> r \<noteq> []
            \<and> payment_of r d = None
            \<and> \<not> fails FindStudent \<and> \<not> fails SavePayment \<longrightarrow>
            fst (initiate_payment fails now gw req d)
              = Responded 200 (Initiated (js_get (js_get data ''data'') ''authorization_url'')
                                 (js_get (js_get data ''data'') ''access_code'')
                                 (Some (JStr r)) (new_id d))
            \<and> payment_of r (snd (initiate_payment fails now gw req d))
              = Some \<lparr>p_id = new_id d, studentId = oid, paystackReference = r,
                      amount = Finite (of_int (a * 100)),
                      currency = ''NGN'', status = ''pending'', semester = sm, academicYear = y,
                      description = description_or (body_field req ''description'')
                                      (Some (JStr sm)) (Some (JStr y)),
                      paidAt = None, createdAt = now, updatedAt = now\<rparr>
            \<and> students (snd (initiate_payment fails now gw req d)) = students d)"
proof -
  have c1: "(\<not> details_present req \<longrightarrow>
            initiate_payment fails now gw req d
              = (Responded 400 (Message
                   ''Missing required payment details (amount, studentId, semester, academicYear, email).''), d))"
    using assms by (auto simp: initiate_payment_def details_present_def body_field_def Let_def)
  have c2: "(details_present req \<and> \<not> amount_throws (body_field req ''amount'')
            \<and> not_positive (body_field req ''amount'') \<longrightarrow>
            initiate_payment fails now gw req d
              = (Responded 400 (Message ''Amount must be positive.''), d))"
    using assms by (simp add: initiate_payment_def details_present_def body_field_def Let_def)
  have c3: "(details_present req
            \<and> body_field req ''amount'' = Some (JNum a) \<and> 0 < a
            \<and> body_field req ''studentId'' = Some (JStr i) \<and> ObjectId i = None
            \<and> length i \<noteq> 12 \<longrightarrow>
            initiate_payment fails now gw req d
              = (Responded 500 (Message_error ''Failed to initiate payment.'' CastError), d))"
    using assms
    by (auto simp: initiate_payment_positive initiate_try_def Student_findById_def castObjectId_def)
  have c4: "(details_present req
            \<and> body_field req ''amount'' = Some (JNum a) \<and> 0 < a
            \<and> body_field req ''studentId'' = Some (JStr i) \<and> ObjectId i = Some oid
            \<and> student_of oid d = None \<and> \<not> fails FindStudent \<longrightarrow>
            initiate_payment fails now gw req d
              = (Responded 404 (Message ''Student not found.''), d))"
    using assms
    by (auto simp: initiate_payment_positive initiate_try_def Student_findById_def castObjectId_def
        student_of_def)
  have c5: "(details_present req
            \<and> body_field req ''amount'' = Some (JNum a) \<and> 0 < a
            \<and> body_field req ''studentId'' = Some (JStr i) \<and> ObjectId i = Some oid
            \<and> student_of oid d = Some s
            \<and> \<not> fails FindStudent \<and> gw = Gateway_threw \<longrightarrow>
            initiate_payment fails now gw req d
              = (Responded 500 (Message_error ''Failed to initiate payment.'' GatewayError), d))"
    using assms
    by (auto simp: initiate_payment_positive initiate_try_def Student_findById_def castObjectId_def
        student_of_def Let_def)
  have c6: "(details_present req
            \<and> body_field req ''amount'' = Some (JNum a) \<and> 0 < a \<and> a * 100 < 2 ^ 53
            \<and> body_field req ''studentId'' = Some (JStr i) \<and> ObjectId i = Some oid
            \<and> student_of oid d = Some s
            \<and> body_field req ''semester'' = Some (JStr sm)
            \<and> body_field req ''academicYear'' = Some (JStr y)
            \<and> (\<not> truthy (body_field req ''description'')
                 \<or> as_string (body_field req ''description'') \<noteq> None)
            \<and> gw = Gateway_returned data \<and> truthy (js_get data ''status'')
            \<and> js_get (js_get data ''data'') ''reference'' = Some (JStr r) \<and> r \<noteq> []
            \<and> payment_of r d = None
            \<and> \<not> fails FindStudent \<and> \<not> fails SavePayment \<longrightarrow>
            fst (initiate_payment fails now gw req d)
              = Responded 200 (Initiated (js_get (js_get data ''data'') ''authorization_url'')
                                 (js_get (js_get data ''data'') ''access_code'')
                                 (Some (JStr r)) (new_id d))
            \<and> payment_of r (snd (initiate_payment fails now gw req d))
              = Some \<lparr>p_id = new_id d, studentId = oid, paystackReference = r,
                      amount = Finite (of_int (a * 100)),
                      currency = ''NGN'', status = ''pending'', semester = sm, academicYear = y,
                      description = description_or (body_field req ''description'')
                                      (Some (JStr sm)) (Some (JStr y)),
                      paidAt = None, createdAt = now, updatedAt = now\<rparr>
            \<and> students (snd (initiate_payment fails now gw req d)) = students d)"
    using initiate_payment_creates[OF assms, of a i oid d s sm y gw data r fails now]
    by (auto simp: payment_of_def find_append_new has_reference_def)
  show ?thesis
    using c1 c2 c3 c4 c5 c6 by (intro conjI)
qed

theorem initiate_payment_outcomes_witness:
  "initiate_payment never 10 Gateway_threw (client_request [] (JObj [])) campus_store
     = (Responded 400 (Message
          ''Missing required payment details (amount, studentId, semester, academicYear, email).''),
        campus_store)
   \<and> initiate_payment never 10 Gateway_threw
        (client_request [] (payment_request (JStr ''-5'') enrolled)) campus_store
     = (Responded 400 (Message ''Amount must be positive.''), campus_store)
   \<and> initiate_payment never 10 Gateway_threw
        (client_request [] (payment_request (JNum 5000) ''not-an-objectid'')) campus_store
     = (Responded 500 (Message_error ''Failed to initiate payment.'' CastError), campus_store)
   \<and> initiate_payment never 10 Gateway_threw
        (client_request [] (payment_request (JNum 5000) ''64b7f0c2a1d3e4f5a6b7c8da'')) campus_store
     = (Responded 404 (Message ''Student not found.''), campus_store)
   \<and> initiate_payment never 10 Gateway_threw
        (client_request [] (payment_request (JNum 5000) enrolled)) campus_store
     = (Responded 500 (Message_error ''Failed to initiate payment.'' GatewayError), campus_store)
   \<and> fst (initiate_payment never 10 (initialize_answer ''R5'')
             (client_request [] (payment_request (JNum 5000) enrolled)) campus_store)
     = Responded 200 (Initiated (Some (JStr ''https://checkout.paystack.com/x'')) (Some (JStr ''x''))
                        (Some (JStr ''R5'')) 2)
   \<and> payment_of ''R5'' (snd (initiate_payment never 10 (initialize_answer ''R5'')
             (client_request [] (payment_request (JNum 5000) enrolled)) campus_store))
     = Some \<lparr>p_id = 2, studentId = enrolled, paystackReference = ''R5'', amount = Finite 500000,
             currency = ''NGN'', status = ''pending'', semester = ''Fall'',
             academicYear = ''2025/2026'',
             description = Some ''Fee payment for Fall 2025/2026'',
             paidAt = None, createdAt = 10, updatedAt = 10\<rparr>"
proof -
  have auth: "protect (client_request [] j)" for j
    by (simp add: protect_def client_request_def)
  have present: "details_present (client_request [] (payment_request (JNum 5000) i)) = (i \<noteq> [])"
    "details_present (client_request [] (payment_request (JStr ''-5'') i)) = (i \<noteq> [])"
    "\<not> details_present (client_request [] (JObj []))" for i
    by (simp_all add: details_present_def body_field_def client_request_def payment_request_def)
  have field: "body_field (client_request [] (payment_request j i)) ''amount'' = Some j"
    "body_field (client_request [] (payment_request j i)) ''studentId'' = Some (JStr i)"
    "body_field (client_request [] (payment_request j i)) ''semester'' = Some (JStr ''Fall'')"
    "body_field (client_request [] (payment_request j i)) ''academicYear'' = Some (JStr ''2025/2026'')"
    "body_field (client_request [] (payment_request j i)) ''description'' = None" for j i
    by (simp_all add: body_field_def client_request_def payment_request_def)
  have ids: "ObjectId enrolled = Some enrolled"
    "ObjectId ''64b7f0c2a1d3e4f5a6b7c8da'' = Some ''64b7f0c2a1d3e4f5a6b7c8da''"
    "ObjectId ''not-an-objectid'' = None" "enrolled \<noteq> []"
    by (simp_all add: ObjectId_def hex_digit_def digit_of_def lower_case_def enrolled_def)
  have st: "student_of enrolled campus_store = Some (unpaid_student enrolled)"
    "student_of ''64b7f0c2a1d3e4f5a6b7c8da'' campus_store = None"
    "payment_of ''R5'' campus_store = None"
    "new_id campus_store = 2"
    by (simp_all add: student_of_def payment_of_def has_id_def has_reference_def campus_store_def
        unpaid_student_def pending_payment_def new_id_def enrolled_def)
  have nofail: "\<not> never FindStudent" "\<not> never SavePayment"
    by (simp_all add: never_def)
  have "StringToNumber ''-5'' = double (of_int (- 5))"
    by (simp add: StringToNumber_def trim_def white_space_def radix_literal_def
        unsigned_decimal_def is_digit_def digit_of_def exponent_part_def)
  then have minus: "\<not> amount_throws (Some (JStr ''-5''))" "not_positive (Some (JStr ''-5''))"
    using double_of_int[of "- 5"]
    by (simp_all add: amount_throws_def not_positive_def amount_number_def)
  have c1: "initiate_payment never 10 Gateway_threw (client_request [] (JObj [])) campus_store
     = (Responded 400 (Message
          ''Missing required payment details (amount, studentId, semester, academicYear, email).''),
        campus_store)"
    using initiate_payment_outcomes[OF auth[of "JObj []"], where fails = never and now = 10
        and gw = Gateway_threw and d = campus_store] present
    by simp
  have c2: "initiate_payment never 10 Gateway_threw
        (client_request [] (payment_request (JStr ''-5'') enrolled)) campus_store
     = (Responded 400 (Message ''Amount must be positive.''), campus_store)"
    using initiate_payment_outcomes[OF auth[of "payment_request (JStr ''-5'') enrolled"],
        where fails = never and now = 10 and gw = Gateway_threw and d = campus_store]
      present field minus ids
    by simp
  have c3: "initiate_payment never 10 Gateway_threw
        (client_request [] (payment_request (JNum 5000) ''not-an-objectid'')) campus_store
     = (Responded 500 (Message_error ''Failed to initiate payment.'' CastError), campus_store)"
    using initiate_payment_outcomes[OF auth[of "payment_request (JNum 5000) ''not-an-objectid''"],
        where fails = never and now = 10 and gw = Gateway_threw and d = campus_store
        and a = 5000 and i = "''not-an-objectid''"]
      present field ids
    by simp
  have c4: "initiate_payment never 10 Gateway_threw
        (client_request [] (payment_request (JNum 5000) ''64b7f0c2a1d3e4f5a6b7c8da'')) campus_store
     = (Responded 404 (Message ''Student not found.''), campus_store)"
    using initiate_payment_outcomes[OF
        auth[of "payment_request (JNum 5000) ''64b7f0c2a1d3e4f5a6b7c8da''"],
        where fails = never and now = 10 and gw = Gateway_threw and d = campus_store
        and a = 5000 and i = "''64b7f0c2a1d3e4f5a6b7c8da''"
        and oid = "''64b7f0c2a1d3e4f5a6b7c8da''"]
      present field ids st nofail
    by simp
  have c5: "initiate_payment never 10 Gateway_threw
        (client_request [] (payment_request (JNum 5000) enrolled)) campus_store
     = (Responded 500 (Message_error ''Failed to initiate payment.'' GatewayError), campus_store)"
    using initiate_payment_outcomes[OF auth[of "payment_request (JNum 5000) enrolled"],
        where fails = never and now = 10 and gw = Gateway_threw and d = campus_store
        and s = "unpaid_student enrolled" and a = 5000 and i = enrolled and oid = enrolled]
      present field ids st nofail
    by simp
  have c6: "fst (initiate_payment never 10 (initialize_answer ''R5'')
             (client_request [] (payment_request (JNum 5000) enrolled)) campus_store)
     = Responded 200 (Initiated (Some (JStr ''https://checkout.paystack.com/x'')) (Some (JStr ''x''))
                        (Some (JStr ''R5'')) 2)
   \<and> payment_of ''R5'' (snd (initiate_payment never 10 (initialize_answer ''R5'')
             (client_request [] (payment_request (JNum 5000) enrolled)) campus_store))
     = Some \<lparr>p_id = 2, studentId = enrolled, paystackReference = ''R5'', amount = Finite 500000,
             currency = ''NGN'', status = ''pending'', semester = ''Fall'',
             academicYear = ''2025/2026'',
             description = Some ''Fee payment for Fall 2025/2026'',
             paidAt = None, createdAt = 10, updatedAt = 10\<rparr>"
    using initiate_payment_outcomes[OF auth[of "payment_request (JNum 5000) enrolled"],
        where fails = never and now = 10 and gw = "initialize_answer ''R5''" and d = campus_store
        and s = "unpaid_student enrolled" and a = 5000 and i = enrolled and oid = enrolled
        and sm = "''Fall''" and y = "''2025/2026''" and r = "''R5''"
        and data = "Some (JObj
       [(''status'', JBool True),
        (''data'', JObj [(''authorization_url'', JStr ''https://checkout.paystack.com/x''),
                         (''access_code'', JStr ''x''), (''reference'', JStr ''R5'')])])"]
      present field ids st nofail
    by (simp add: initialize_answer_def description_or_def)
  show ?thesis
    using c1 c2 c3 c4 c5 c6 by (intro conjI) simp_all
qed

text \<open>
  The claim as the specification states it fails on two status codes. When the gateway
  is unavailable the \<^verbatim>\<open>catch\<close> answers 500, not 502; and when the student id of
  the request is no ObjectId, so that no student has it, the lookup throws and the
  \<^verbatim>\<open>catch\<close> answers 500, not 404.
\<close>

theorem initiation_status_counterexample:
  "protect (client_request [] (payment_request (JNum 5000) enrolled))
   \<and> details_present (client_request [] (payment_request (JNum 5000) enrolled))
   \<and> student_of enrolled campus_store = Some (unpaid_student enrolled)
   \<and> initiate_payment never 10 Gateway_threw
        (client_request [] (payment_request (JNum 5000) enrolled)) campus_store
      = (Responded 500 (Message_error ''Failed to initiate payment.'' GatewayError), campus_store)
   \<and> details_present (client_request [] (payment_request (JNum 5000) ''not-an-objectid''))
   \<and> student_of ''not-an-objectid'' campus_store = None
   \<and> initiate_payment never 10 Gateway_threw
        (client_request [] (payment_request (JNum 5000) ''not-an-objectid'')) campus_store
      = (Responded 500 (Message_error ''Failed to initiate payment.'' CastError), campus_store)"
proof -
  have pos: "\<not> amount_throws (Some (JNum 5000))" "\<not> not_positive (Some (JNum 5000))"
    using positive_amount[of 5000] by simp_all
  have ids: "ObjectId enrolled = Some enrolled" "ObjectId ''not-an-objectid'' = None"
    by (simp_all add: ObjectId_def hex_digit_def digit_of_def lower_case_def enrolled_def)
  have st: "student_of enrolled campus_store = Some (unpaid_student enrolled)"
    by (simp add: student_of_def has_id_def campus_store_def unpaid_student_def)
  show ?thesis
    using pos ids st
    by (simp add: client_request_def payment_request_def details_present_def body_field_def
        protect_def initiate_payment_def initiate_try_def Student_findById_def castObjectId_def
        student_of_def has_id_def campus_store_def unpaid_student_def never_def enrolled_def)
qed

section \<open>The answers of the webhook\<close>

lemma webhook2_success_stored:
  assumes "signature_ok hmac secret req"
    and "event_name req = Some (JStr ''charge.success'')"
    and "event_reference req = Some r"
    and "payment_of r d = Some p"
    and "metadata_complete req"
    and "\<not> fails UpdatePayment" and "\<not> fails UpdateStudent"
  shows "fst (webhook2 hmac secret fails now req d) = Responded 200 Received"
proof -
  let ?u = "set_success (as_string (js_get (event_data req) ''paid_at'')) now"
  have data: "\<not> nullish (event_data req)"
    using assms(3) by (rule event_reference_data)
  have ref: "js_get (event_data req) ''reference'' = Some (JStr r)"
    using assms(3) by (auto simp: event_reference_def dest: as_string_Some)
  obtain d1 where d1: "Payment_findOneAndUpdate fails (Some r) ?u d = Inr (Some (?u p), d1)"
    using findOneAndUpdate_some[of r d p fails ?u] assms(4,6) by auto
  obtain d' where
    "charge_success_try2 fails now (event_data req) (Some (JStr r))
       (js_get (event_metadata req) ''student_id'') (js_get (event_metadata req) ''semester'')
       (js_get (event_metadata req) ''academic_year'') (js_get (event_metadata req) ''description'') d
     = (None, d')"
    using d1 assms(7) by (simp add: charge_success_try2_def Student_findByIdAndUpdate_def)
  then show ?thesis
    using assms(1,2,5) data ref
    by (simp add: webhook2_def event_name_def event_data_def event_metadata_def
        metadata_complete_def Let_def)
qed

lemma webhook_success_response:
  assumes "signature_ok hmac secret req"
    and "event_name req = Some (JStr ''charge.success'')"
    and "event_reference req = Some r"
    and "payment_of r d = Some p"
    and "\<not> nullish (event_metadata req)"
    and "\<not> fails UpdatePayment" and "\<not> fails UpdateStudent"
  shows "fst (webhook hmac secret fails now req d) = Responded 200 Received"
proof -
  let ?u = "set_success (as_string (js_get (event_data req) ''paid_at'')) now"
  have data: "\<not> nullish (event_data req)"
    using assms(3) by (rule event_reference_data)
  have ref: "js_get (event_data req) ''reference'' = Some (JStr r)"
    using assms(3) by (auto simp: event_reference_def dest: as_string_Some)
  obtain d1 where d1: "Payment_findOneAndUpdate fails (Some r) ?u d = Inr (Some (?u p), d1)"
    using findOneAndUpdate_some[of r d p fails ?u] assms(4,6) by auto
  obtain d' where
    "charge_success_try fails now (event_data req) (Some (JStr r))
       (js_get (event_metadata req) ''student_id'') (js_get (event_metadata req) ''semester'')
       (js_get (event_metadata req) ''academic_year'') d
     = (None, d')"
    using d1 assms(7) by (simp add: charge_success_try_def Student_findByIdAndUpdate_def)
  then show ?thesis
    using assms(1,2,5) data ref
    by (simp add: webhook_def event_name_def event_data_def event_metadata_def Let_def)
qed

text \<open>
  C4, as the routes have it. Without a valid signature the answer is 400
  \<^verbatim>\<open>Invalid signature\<close> (never 401) and nothing changes. With one, the answer is 200
  \<^verbatim>\<open>{received: true}\<close> for an event type the handler ignores, for a
  \<^verbatim>\<open>charge.success\<close> whose payment is stored and for a \<^verbatim>\<open>charge.failed\<close>,
  when the store operations complete; it is 500, still with \<^verbatim>\<open>received: true\<close>,
  when the payment update throws; and in the second version it is 400 with
  \<^verbatim>\<open>Missing metadata\<close> for a \<^verbatim>\<open>charge.success\<close> whose metadata lacks the
  student id, the semester or the academic year.
\<close>

theorem webhook_responses:
  "(\<not> signature_ok hmac secret req \<longrightarrow>
      webhook hmac secret fails now req d = (Responded 400 (Text ''Invalid signature''), d)
      \<and> webhook2 hmac secret fails now req d = (Responded 400 (Text ''Invalid signature''), d))
   \<and> (signature_ok hmac secret req
        \<and> event_name req \<noteq> Some (JStr ''charge.success'')
        \<and> event_name req \<noteq> Some (JStr ''charge.failed'') \<longrightarrow>
        webhook hmac secret fails now req d = (Responded 200 Received, d)
        \<and> webhook2 hmac secret fails now req d = (Responded 200 Received, d))
   \<and> (signature_ok hmac secret req
        \<and> event_name req = Some (JStr ''charge.success'')
        \<and> \<not> nullish (event_data req) \<and> \<not> metadata_complete req \<longrightarrow>
        webhook2 hmac secret fails now req d
          = (Responded 400 (Received_message ''Missing metadata''), d))
   \<and> (signature_ok hmac secret req
        \<and> event_name req = Some (JStr ''charge.success'')
        \<and> event_reference req = Some r \<and> payment_of r d = Some p \<and> metadata_complete req
        \<and> metadata_string req ''student_id'' = Some i
        \<and> metadata_string req ''semester'' = Some sm
        \<and> metadata_string req ''academic_year'' = Some y
        \<and> \<not> fails UpdatePayment \<and> \<not> fails UpdateStudent \<longrightarrow>
        fst (webhook hmac secret fails now req d) = Responded 200 Received
        \<and> fst (webhook2 hmac secret fails now req d) = Responded 200 Received)
   \<and> (signature_ok hmac secret req
        \<and> event_name req = Some (JStr ''charge.success'')
        \<and> \<not> nullish (event_data req) \<and> metadata_complete req \<and> fails UpdatePayment \<longrightarrow>
        webhook hmac secret fails now req d
          = (Responded 500 (Received_message ''Database update failed''), d)
        \<and> webhook2 hmac secret fails now req d
          = (Responded 500 (Received_message ''Database update failed''), d))
   \<and> (signature_ok hmac secret req
        \<and> event_name req = Some (JStr ''charge.failed'')
        \<and> event_reference req = Some r \<and> \<not> fails UpdatePayment \<longrightarrow>
        fst (webhook hmac secret fails now req d) = Responded 200 Received
        \<and> fst (webhook2 hmac secret fails now req d) = Responded 200 Received)
   \<and> (signature_ok hmac secret req
        \<and> event_name req = Some (JStr ''charge.failed'')
        \<and> \<not> nullish (event_data req) \<and> fails UpdatePayment \<longrightarrow>
        webhook hmac secret fails now req d
          = (Responded 500 (Received_message ''Database update failed for failed payment''), d)
        \<and> webhook2 hmac secret fails now req d
          = (Responded 500 (Received_message ''Database update failed for failed payment''), d))"
proof -
  have complete: "\<not> nullish (event_metadata req)" if "metadata_complete req"
    using that js_get_Some_truthy[of "event_metadata req" "''student_id''"]
    by (cases "js_get (event_metadata req) ''student_id''") (simp_all add: metadata_complete_def)
  have c1: "\<not> signature_ok hmac secret req \<longrightarrow>
      webhook hmac secret fails now req d = (Responded 400 (Text ''Invalid signature''), d)
      \<and> webhook2 hmac secret fails now req d = (Responded 400 (Text ''Invalid signature''), d)"
    by (simp add: webhook_def webhook2_def)
  have c2: "signature_ok hmac secret req
        \<and> event_name req \<noteq> Some (JStr ''charge.success'')
        \<and> event_name req \<noteq> Some (JStr ''charge.failed'') \<longrightarrow>
        webhook hmac secret fails now req d = (Responded 200 Received, d)
        \<and> webhook2 hmac secret fails now req d = (Responded 200 Received, d)"
    by (simp add: webhook_def webhook2_def event_name_def)
  have c3: "signature_ok hmac secret req
        \<and> event_name req = Some (JStr ''charge.success'')
        \<and> \<not> nullish (event_data req) \<and> \<not> metadata_complete req \<longrightarrow>
        webhook2 hmac secret fails now req d
          = (Responded 400 (Received_message ''Missing metadata''), d)"
    by (auto simp: webhook2_def event_name_def event_data_def event_metadata_def
        metadata_complete_def Let_def)
  have c4: "signature_ok hmac secret req
        \<and> event_name req = Some (JStr ''charge.success'')
        \<and> event_reference req = Some r \<and> payment_of r d = Some p \<and> metadata_complete req
        \<and> metadata_string req ''student_id'' = Some i
        \<and> metadata_string req ''semester'' = Some sm
        \<and> metadata_string req ''academic_year'' = Some y
        \<and> \<not> fails UpdatePayment \<and> \<not> fails UpdateStudent \<longrightarrow>
        fst (webhook hmac secret fails now req d) = Responded 200 Received
        \<and> fst (webhook2 hmac secret fails now req d) = Responded 200 Received"
    using webhook2_success_stored[of hmac secret req r d p fails now]
      webhook_success_response[of hmac secret req r d p fails now] complete
    by blast
  have c5: "signature_ok hmac secret req
        \<and> event_name req = Some (JStr ''charge.success'')
        \<and> \<not> nullish (event_data req) \<and> metadata_complete req \<and> fails UpdatePayment \<longrightarrow>
        webhook hmac secret fails now req d
          = (Responded 500 (Received_message ''Database update failed''), d)
        \<and> webhook2 hmac secret fails now req d
          = (Responded 500 (Received_message ''Database update failed''), d)"
    using complete
    by (auto simp: webhook_def webhook2_def event_name_def event_data_def event_metadata_def
        metadata_complete_def Let_def charge_success_try_def charge_success_try2_def
        Payment_findOneAndUpdate_def)
  have c6: "signature_ok hmac secret req
        \<and> event_name req = Some (JStr ''charge.failed'')
        \<and> event_reference req = Some r \<and> \<not> fails UpdatePayment \<longrightarrow>
        fst (webhook hmac secret fails now req d) = Responded 200 Received
        \<and> fst (webhook2 hmac secret fails now req d) = Responded 200 Received"
    using event_reference_data[of req r]
    by (auto simp: webhook_def webhook2_def event_name_def event_data_def charge_failed_try_def
        Payment_findOneAndUpdate_def)
  have c7: "signature_ok hmac secret req
        \<and> event_name req = Some (JStr ''charge.failed'')
        \<and> \<not> nullish (event_data req) \<and> fails UpdatePayment \<longrightarrow>
        webhook hmac secret fails now req d
          = (Responded 500 (Received_message ''Database update failed for failed payment''), d)
        \<and> webhook2 hmac secret fails now req d
          = (Responded 500 (Received_message ''Database update failed for failed payment''), d)"
    by (simp add: webhook_def webhook2_def event_name_def event_data_def charge_failed_try_def
        Payment_findOneAndUpdate_def)
  show ?thesis
    using c1 c2 c3 c4 c5 c6 c7 by (intro conjI)
qed

theorem webhook_responses_witness:
  "webhook prefix_key ''sk'' never 10
     \<lparr>authorization = None, x_paystack_signature = None, params_reference = [],
      body = charge_event ''charge.success'' ''R1'' ''T1'' []\<rparr> example_store
     = (Responded 400 (Text ''Invalid signature''), example_store)
   \<and> webhook2 prefix_key ''sk'' never 10
        (delivery prefix_key ''sk'' (charge_event ''transfer.success'' ''R1'' ''T1'' [])) example_store
     = (Responded 200 Received, example_store)
   \<and> webhook2 prefix_key ''sk'' never 10
        (delivery prefix_key ''sk'' (charge_event ''charge.success'' ''R1'' ''T1'' [])) example_store
     = (Responded 400 (Received_message ''Missing metadata''), example_store)
   \<and> fst (webhook prefix_key ''sk'' never 10 fall_success example_store) = Responded 200 Received
   \<and> fst (webhook2 prefix_key ''sk'' never 10 fall_success example_store) = Responded 200 Received
   \<and> webhook2 prefix_key ''sk'' (only UpdatePayment) 10 fall_success example_store
     = (Responded 500 (Received_message ''Database update failed''), example_store)
   \<and> fst (webhook prefix_key ''sk'' never 10
        (delivery prefix_key ''sk'' (charge_event ''charge.failed'' ''R1'' ''T1'' [])) example_store)
     = Responded 200 Received
   \<and> webhook prefix_key ''sk'' (only UpdatePayment) 10
        (delivery prefix_key ''sk'' (charge_event ''charge.failed'' ''R1'' ''T1'' [])) example_store
     = (Responded 500 (Received_message ''Database update failed for failed payment''), example_store)"
proof -
  let ?unsigned = "\<lparr>authorization = None, x_paystack_signature = None, params_reference = [],
                    body = charge_event ''charge.success'' ''R1'' ''T1'' []\<rparr>"
  let ?other = "delivery prefix_key ''sk'' (charge_event ''transfer.success'' ''R1'' ''T1'' [])"
  let ?bare = "delivery prefix_key ''sk'' (charge_event ''charge.success'' ''R1'' ''T1'' [])"
  let ?failed = "delivery prefix_key ''sk'' (charge_event ''charge.failed'' ''R1'' ''T1'' [])"
  have sig: "\<not> signature_ok prefix_key ''sk'' ?unsigned"
    "signature_ok prefix_key ''sk'' ?other" "signature_ok prefix_key ''sk'' ?bare"
    "signature_ok prefix_key ''sk'' fall_success" "signature_ok prefix_key ''sk'' ?failed"
    by (simp_all add: signature_ok_delivery fall_success_def) (simp add: signature_ok_def)
  have ev: "event_name ?other = Some (JStr ''transfer.success'')"
    "event_name ?bare = Some (JStr ''charge.success'')" "\<not> nullish (event_data ?bare)"
    "\<not> metadata_complete ?bare"
    "event_name fall_success = Some (JStr ''charge.success'')"
    "event_reference fall_success = Some ''R1''" "\<not> nullish (event_data fall_success)"
    "metadata_complete fall_success"
    "metadata_string fall_success ''student_id'' = Some ''S1''"
    "metadata_string fall_success ''semester'' = Some ''Fall''"
    "metadata_string fall_success ''academic_year'' = Some ''2025/2026''"
    "event_name ?failed = Some (JStr ''charge.failed'')" "\<not> nullish (event_data ?failed)"
    "event_reference ?failed = Some ''R1''"
    by (simp_all add: reading_defs metadata_complete_def fall_success_def delivery_def
        charge_event_def term_metadata_def)
  have stored: "payment_of ''R1'' example_store = Some (pending_payment 1 ''R1'' ''S1'' ''Fall'')"
    by (simp add: payment_of_def example_store_def pending_payment_def has_reference_def)
  have fails: "\<not> never UpdatePayment" "\<not> never UpdateStudent" "only UpdatePayment UpdatePayment"
    by (simp_all add: never_def only_def)
  note w = webhook_responses[where hmac = prefix_key and secret = "''sk''" and now = 10
      and d = example_store and r = "''R1''" and p = "pending_payment 1 ''R1'' ''S1'' ''Fall''"
      and i = "''S1''" and sm = "''Fall''" and y = "''2025/2026''"]
  show ?thesis
    using w[where req = ?unsigned and fails = never] w[where req = ?other and fails = never]
      w[where req = ?bare and fails = never] w[where req = fall_success and fails = never]
      w[where req = fall_success and fails = "only UpdatePayment"]
      w[where req = ?failed and fails = never] w[where req = ?failed and fails = "only UpdatePayment"]
      sig ev stored fails
    by simp
qed

text \<open>
  The claim as the specification states it fails: a \<^verbatim>\<open>charge.success\<close> event that
  carries a valid signature and no metadata is answered 400 by the second version of the
  route.
\<close>

theorem missing_metadata_counterexample:
  "signature_ok prefix_key ''sk''
     (delivery prefix_key ''sk'' (charge_event ''charge.success'' ''R1'' ''T1'' []))
   \<and> webhook2 prefix_key ''sk'' never 10
        (delivery prefix_key ''sk'' (charge_event ''charge.success'' ''R1'' ''T1'' [])) example_store
      = (Responded 400 (Received_message ''Missing metadata''), example_store)"
  by (simp add: webhook2_def signature_ok_delivery)
     (simp add: delivery_def charge_event_def nullish_def)

section \<open>What the signature check hashes\<close>








end
